theory Spec2Isabelle
  imports Main "HOL-Library.Sublist" "HOL-Library.Signed_Division"
begin

section \<open>JavaScript primitives the sources rely on\<close>

text \<open>
  \<^verbatim>\<open>Number.prototype.toString\<close> on an integer, \<^verbatim>\<open>String.prototype.padStart\<close>, the
  remainder operator \<^verbatim>\<open>%\<close> (which truncates towards zero, here \<open>smod\<close>) and the
  truthiness of strings and numbers, as far as the three source files use them.
  \<^verbatim>\<open>Math.floor(a / b)\<close> on integers with positive \<open>b\<close> is \<open>a div b\<close>.
\<close>

definition digit_char :: "nat \<Rightarrow> char" where
  "digit_char d = char_of (48 + d)"

fun nat_digits :: "nat \<Rightarrow> string" where
  "nat_digits n =
     (if n < 10 then [digit_char n] else nat_digits (n div 10) @ [digit_char (n mod 10)])"

declare nat_digits.simps [simp del]

definition toString :: "int \<Rightarrow> string" where
  "toString i = (if i < 0 then CHR ''-'' # nat_digits (nat (- i)) else nat_digits (nat i))"

definition padStart :: "nat \<Rightarrow> char \<Rightarrow> string \<Rightarrow> string" where
  "padStart n c s = replicate (n - length s) c @ s"

definition truthy_str :: "string \<Rightarrow> bool" where
  "truthy_str s = (s \<noteq> [])"

definition truthy_num :: "int \<Rightarrow> bool" where
  "truthy_num n = (n \<noteq> 0)"

text \<open>A value that may be \<^verbatim>\<open>null\<close> or \<^verbatim>\<open>undefined\<close> is an option; \<open>None\<close> is falsy.\<close>

definition truthy_ostr :: "string option \<Rightarrow> bool" where
  "truthy_ostr v = (case v of None \<Rightarrow> False | Some s \<Rightarrow> truthy_str s)"

definition truthy_onum :: "int option \<Rightarrow> bool" where
  "truthy_onum v = (case v of None \<Rightarrow> False | Some n \<Rightarrow> truthy_num n)"

text \<open>\<^verbatim>\<open>v || d\<close>: \<open>v\<close> when it is truthy, else \<open>d\<close>.\<close>

definition or_str :: "string option \<Rightarrow> string \<Rightarrow> string" where
  "or_str v d = (case v of None \<Rightarrow> d | Some s \<Rightarrow> if truthy_str s then s else d)"

definition or_ostr :: "string option \<Rightarrow> string option \<Rightarrow> string option" where
  "or_ostr v d = (if truthy_ostr v then v else d)"

definition or_num :: "int option \<Rightarrow> int \<Rightarrow> int" where
  "or_num v d = (case v of None \<Rightarrow> d | Some n \<Rightarrow> if truthy_num n then n else d)"

subsection \<open>Numbers\<close>

text \<open>
  A JavaScript number is an IEEE 754 double. The countdown computes with numbers that
  come from the server unchecked, so its arithmetic is modelled with the rounding of
  doubles: \<open>number\<close> is a double whose value is an integer, an infinity or \<^verbatim>\<open>NaN\<close>
  (fractional values are outside the model), and the result of an operation is the
  exact result rounded to the nearest double, ties to even (\<open>to_double\<close>). Below
  \<open>2 ^ 53\<close> every integer is a double; above, doubles are spaced by a power of two, and
  a magnitude that rounds to \<open>2 ^ 1024\<close> or more is an infinity.

  Times read from \<^verbatim>\<open>Date.getTime()\<close> and list indices stay far below \<open>2 ^ 53\<close>, where the
  arithmetic of doubles is exact; they are plain integers.
\<close>

datatype number = Fin int | PosInf | NegInf | NaN

fun bit_length :: "nat \<Rightarrow> nat" where
  "bit_length n = (if n = 0 then 0 else Suc (bit_length (n div 2)))"

declare bit_length.simps [simp del]

definition round_magnitude :: "nat \<Rightarrow> nat" where
  "round_magnitude a =
     (if a < 2 ^ 53 then a
      else
        (let q = 2 ^ (bit_length a - 53);
             m = a div q;
             r = a mod q
         in (if q < 2 * r \<or> (2 * r = q \<and> odd m) then m + 1 else m) * q))"

definition to_double :: "int \<Rightarrow> number" where
  "to_double n =
     (let v = round_magnitude (nat \<bar>n\<bar>)
      in if 2 ^ 1024 \<le> v then (if n < 0 then NegInf else PosInf)
         else Fin (if n < 0 then - int v else int v))"

text \<open>\<^verbatim>\<open>x * k\<close>, \<^verbatim>\<open>x - k\<close> and \<^verbatim>\<open>x <= k\<close> for an integer literal \<open>k\<close>.\<close>

definition js_times :: "number \<Rightarrow> int \<Rightarrow> number" where
  "js_times x k =
     (case x of
        Fin n \<Rightarrow> to_double (n * k)
      | PosInf \<Rightarrow> (if 0 < k then PosInf else if k < 0 then NegInf else NaN)
      | NegInf \<Rightarrow> (if 0 < k then NegInf else if k < 0 then PosInf else NaN)
      | NaN \<Rightarrow> NaN)"

definition js_minus :: "number \<Rightarrow> int \<Rightarrow> number" where
  "js_minus x k =
     (case x of Fin n \<Rightarrow> to_double (n - k) | PosInf \<Rightarrow> PosInf | NegInf \<Rightarrow> NegInf
      | NaN \<Rightarrow> NaN)"

definition js_le :: "number \<Rightarrow> int \<Rightarrow> bool" where
  "js_le x k =
     (case x of Fin n \<Rightarrow> n \<le> k | PosInf \<Rightarrow> False | NegInf \<Rightarrow> True | NaN \<Rightarrow> False)"


section \<open>The quiz-taking component (TakeQuiz.tsx)\<close>

subsection \<open>Data\<close>

record answer =
  question_id :: int
  selected_option :: int

text \<open>
  \<^verbatim>\<open>Quiz\<close>, \<^verbatim>\<open>Question\<close> and \<^verbatim>\<open>Option\<close> are declared in \<^verbatim>\<open>services/api\<close>; the records
  hold the fields the component reads (\<^verbatim>\<open>id\<close>, \<^verbatim>\<open>text\<close>, \<^verbatim>\<open>options\<close>; \<^verbatim>\<open>title\<close>,
  \<^verbatim>\<open>description\<close>, \<^verbatim>\<open>timeLimit\<close>, \<^verbatim>\<open>passingScore\<close>).
\<close>

record choice =
  choice_id :: int
  choice_text :: string

record question =
  q_id :: int
  q_text :: string
  q_options :: "choice list"

record quiz_info =
  quiz_title :: string
  quiz_description :: string
  quiz_timeLimit :: number
  quiz_passingScore :: int

text \<open>The argument of one \<^verbatim>\<open>submitQuiz\<close> call.\<close>

record submission =
  sub_quiz_id :: int
  sub_answers :: "answer list"
  sub_time_taken :: string

text \<open>
  The component's state: its \<^verbatim>\<open>useState\<close> cells and the \<^verbatim>\<open>startTime\<close> ref, together
  with what it has done to the outside: the \<^verbatim>\<open>submitQuiz\<close> calls made so far
  (\<open>submitted\<close>), how many of them are still awaited (\<open>inflight\<close>) and the route it has
  navigated to, if any (\<open>navigated\<close>). Times are milliseconds since the epoch
  (\<^verbatim>\<open>Date.getTime()\<close>).

  \<^verbatim>\<open>handleOptionSelect\<close> copies the array but writes into the answer object it shares
  with every earlier copy, so each closure sees the same answers: one list stands for
  all copies.
\<close>

record tq_state =
  quizId :: int
  quiz :: "quiz_info option"
  questions :: "question list"
  currentQuestionIndex :: int
  answers :: "answer list"
  selectedOption :: "int option"
  timeLeft :: number
  quizStarted :: bool
  quizFinished :: bool
  loading :: bool
  error :: "string option"
  showConfirmModal :: bool
  startTime :: "int option"
  submitted :: "submission list"
  inflight :: nat
  navigated :: "string option"

datatype tq_error = TypeError

text \<open>The state at mount: the initial values of the \<^verbatim>\<open>useState\<close> calls.\<close>

definition initial :: "int \<Rightarrow> tq_state" where
  "initial qid =
     \<lparr> quizId = qid, quiz = None, questions = [], currentQuestionIndex = 0, answers = [],
       selectedOption = None, timeLeft = Fin 0, quizStarted = False, quizFinished = False,
       loading = True, error = None, showConfirmModal = False, startTime = None,
       submitted = [], inflight = 0, navigated = None \<rparr>"

subsection \<open>fetchQuizData\<close>

datatype fetch_result =
    QuizRequestFailed
  | QuestionsRequestFailed quiz_info
  | Loaded quiz_info "question list"

definition load_failed :: string where
  "load_failed = ''Failed to load quiz. Please try again later.''"

definition initialAnswers :: "question list \<Rightarrow> answer list" where
  "initialAnswers qs = map (\<lambda>q. \<lparr> question_id = q_id q, selected_option = - 1 \<rparr>) qs"

definition fetchQuizData :: "fetch_result \<Rightarrow> tq_state \<Rightarrow> tq_state" where
  "fetchQuizData r s =
     (case r of
        QuizRequestFailed \<Rightarrow> s\<lparr> error := Some load_failed, loading := False \<rparr>
      | QuestionsRequestFailed qz \<Rightarrow>
          s\<lparr> quiz := Some qz, timeLeft := js_times (quiz_timeLimit qz) 60,
             error := Some load_failed, loading := False \<rparr>
      | Loaded qz qs \<Rightarrow>
          s\<lparr> quiz := Some qz, timeLeft := js_times (quiz_timeLimit qz) 60, questions := qs,
             answers := initialAnswers qs, error := None, loading := False \<rparr>)"

subsection \<open>Event handlers\<close>

definition startQuiz :: "int \<Rightarrow> tq_state \<Rightarrow> tq_state" where
  "startQuiz now s = s\<lparr> quizStarted := True, startTime := Some now \<rparr>"

text \<open>
  Reading \<^verbatim>\<open>answers[i]\<close> outside the array gives \<^verbatim>\<open>undefined\<close>, and the property access
  on it throws a \<^verbatim>\<open>TypeError\<close>.
\<close>

definition answer_at :: "answer list \<Rightarrow> int \<Rightarrow> tq_error + answer" where
  "answer_at as i = (if 0 \<le> i \<and> i < int (length as) then Inr (as ! nat i) else Inl TypeError)"

definition shown_option :: "answer \<Rightarrow> int option" where
  "shown_option a = (if selected_option a = - 1 then None else Some (selected_option a))"

definition handleOptionSelect :: "int \<Rightarrow> tq_state \<Rightarrow> tq_error + tq_state" where
  "handleOptionSelect optionId s =
     (case answer_at (answers s) (currentQuestionIndex s) of
        Inl e \<Rightarrow> Inl e
      | Inr a \<Rightarrow>
          Inr (s\<lparr> selectedOption := Some optionId,
                  answers := (answers s)[nat (currentQuestionIndex s) :=
                                a\<lparr> selected_option := optionId \<rparr>] \<rparr>))"

definition goToNextQuestion :: "tq_state \<Rightarrow> tq_error + tq_state" where
  "goToNextQuestion s =
     (if currentQuestionIndex s < int (length (questions s)) - 1 then
        (case answer_at (answers s) (currentQuestionIndex s + 1) of
           Inl e \<Rightarrow> Inl e
         | Inr a \<Rightarrow>
             Inr (s\<lparr> currentQuestionIndex := currentQuestionIndex s + 1,
                     selectedOption := shown_option a \<rparr>))
      else Inr (s\<lparr> showConfirmModal := True \<rparr>))"

definition goToPreviousQuestion :: "tq_state \<Rightarrow> tq_error + tq_state" where
  "goToPreviousQuestion s =
     (if currentQuestionIndex s > 0 then
        (case answer_at (answers s) (currentQuestionIndex s - 1) of
           Inl e \<Rightarrow> Inl e
         | Inr a \<Rightarrow>
             Inr (s\<lparr> currentQuestionIndex := currentQuestionIndex s - 1,
                     selectedOption := shown_option a \<rparr>))
      else Inr s)"

subsection \<open>finishQuiz\<close>

definition timeTaken :: "int option \<Rightarrow> int \<Rightarrow> int" where
  "timeTaken start endTime =
     (case start of None \<Rightarrow> 0 | Some st \<Rightarrow> (endTime - st) div 1000)"

definition pad2 :: "int \<Rightarrow> string" where
  "pad2 n = padStart 2 (CHR ''0'') (toString n)"

definition formattedTime :: "int \<Rightarrow> string" where
  "formattedTime t =
     (let hours = t div 3600;
          minutes = (t smod 3600) div 60;
          seconds = t smod 60
      in pad2 hours @ '':'' @ pad2 minutes @ '':'' @ pad2 seconds)"

definition validAnswers :: "answer list \<Rightarrow> answer list" where
  "validAnswers as = filter (\<lambda>a. selected_option a \<noteq> - 1) as"

definition payload :: "int \<Rightarrow> tq_state \<Rightarrow> submission" where
  "payload endTime s =
     \<lparr> sub_quiz_id = quizId s,
       sub_answers = validAnswers (answers s),
       sub_time_taken = formattedTime (timeTaken (startTime s) endTime) \<rparr>"

text \<open>
  \<^verbatim>\<open>finishQuiz\<close> runs up to its \<^verbatim>\<open>await\<close> (\<open>finishQuiz_call\<close>), the component renders
  with \<^verbatim>\<open>quizFinished\<close> set, and the handler resumes when the request settles: with the
  score id (\<open>finishQuiz_resolved\<close>) or in the \<^verbatim>\<open>catch\<close> block (\<open>finishQuiz_rejected\<close>).
\<close>

definition finishQuiz_call :: "int \<Rightarrow> tq_state \<Rightarrow> tq_state" where
  "finishQuiz_call endTime s =
     s\<lparr> quizFinished := True,
        submitted := submitted s @ [payload endTime s],
        inflight := Suc (inflight s) \<rparr>"

definition results_path :: "int \<Rightarrow> string" where
  "results_path scoreId = ''/results/'' @ toString scoreId"

definition finishQuiz_resolved :: "int \<Rightarrow> tq_state \<Rightarrow> tq_state" where
  "finishQuiz_resolved scoreId s =
     s\<lparr> navigated := Some (results_path scoreId), inflight := inflight s - 1 \<rparr>"

definition submit_failed :: string where
  "submit_failed = ''Failed to submit quiz. Please try again.''"

definition finishQuiz_rejected :: "tq_state \<Rightarrow> tq_state" where
  "finishQuiz_rejected s =
     s\<lparr> error := Some submit_failed, quizFinished := False, inflight := inflight s - 1 \<rparr>"

text \<open>The whole handler, given how the request settles (\<open>Inl ()\<close>: it is rejected).\<close>

definition finishQuiz :: "int \<Rightarrow> unit + int \<Rightarrow> tq_state \<Rightarrow> tq_state" where
  "finishQuiz endTime outcome s =
     (case outcome of
        Inr scoreId \<Rightarrow> finishQuiz_resolved scoreId (finishQuiz_call endTime s)
      | Inl _ \<Rightarrow> finishQuiz_rejected (finishQuiz_call endTime s))"

subsection \<open>The countdown\<close>

text \<open>One firing of the interval: the updater passed to \<^verbatim>\<open>setTimeLeft\<close>.\<close>

definition tick :: "int \<Rightarrow> tq_state \<Rightarrow> tq_state" where
  "tick now s =
     (if js_le (timeLeft s) 1 then (finishQuiz_call now s)\<lparr> timeLeft := Fin 0 \<rparr>
      else s\<lparr> timeLeft := js_minus (timeLeft s) 1 \<rparr>)"

subsection \<open>What is rendered, and which events can occur\<close>

datatype view = Spinner | ErrorAlert | Instructions | QuestionCard

text \<open>The chain of early returns in the component body.\<close>

definition rendered :: "tq_state \<Rightarrow> view" where
  "rendered s =
     (if loading s then Spinner
      else if truthy_ostr (error s) then ErrorAlert
      else if \<not> quizStarted s then Instructions
      else QuestionCard)"

text \<open>\<^verbatim>\<open>questions[currentQuestionIndex]\<close>; \<open>None\<close> is \<^verbatim>\<open>undefined\<close>.\<close>

definition currentQuestion :: "tq_state \<Rightarrow> question option" where
  "currentQuestion s =
     (if 0 \<le> currentQuestionIndex s \<and> currentQuestionIndex s < int (length (questions s))
      then Some (questions s ! nat (currentQuestionIndex s)) else None)"

datatype event =
    Fetched fetch_result
  | ClickStart int
  | ClickOption int
  | ClickNext
  | ClickPrevious
  | HideModal
  | ClickFinish int
  | TimerFired int
  | SubmitResolved int
  | SubmitRejected
  | BackToQuizzes

text \<open>
  An event can occur when the component is still mounted and the element that raises it
  is rendered: the Start button on the instructions card, the radio buttons of the current
  question, Previous (disabled at index 0) and Next on the question card, the two buttons
  of the confirmation modal while it is shown. The interval exists exactly while
  \<^verbatim>\<open>quizStarted && !quizFinished\<close> (the timer effect and its cleanup), the data request
  settles once (while \<^verbatim>\<open>loading\<close>), and a submission settles while one is awaited.
\<close>

fun enabled :: "tq_state \<Rightarrow> event \<Rightarrow> bool" where
  "enabled s (Fetched r) = (navigated s = None \<and> loading s)"
| "enabled s (ClickStart now) = (navigated s = None \<and> rendered s = Instructions)"
| "enabled s (ClickOption optionId) =
     (navigated s = None \<and> rendered s = QuestionCard \<and>
      (case currentQuestion s of
         None \<Rightarrow> False
       | Some q \<Rightarrow> optionId \<in> set (map choice_id (q_options q))))"
| "enabled s ClickNext = (navigated s = None \<and> rendered s = QuestionCard)"
| "enabled s ClickPrevious =
     (navigated s = None \<and> rendered s = QuestionCard \<and> currentQuestionIndex s \<noteq> 0)"
| "enabled s HideModal =
     (navigated s = None \<and> rendered s = QuestionCard \<and> showConfirmModal s)"
| "enabled s (ClickFinish now) =
     (navigated s = None \<and> rendered s = QuestionCard \<and> showConfirmModal s)"
| "enabled s (TimerFired now) = (navigated s = None \<and> quizStarted s \<and> \<not> quizFinished s)"
| "enabled s (SubmitResolved scoreId) = (navigated s = None \<and> 0 < inflight s)"
| "enabled s SubmitRejected = (navigated s = None \<and> 0 < inflight s)"
| "enabled s BackToQuizzes =
     (navigated s = None \<and> (rendered s = ErrorAlert \<or> rendered s = Instructions))"

fun step :: "event \<Rightarrow> tq_state \<Rightarrow> tq_error + tq_state" where
  "step (Fetched r) s = Inr (fetchQuizData r s)"
| "step (ClickStart now) s = Inr (startQuiz now s)"
| "step (ClickOption optionId) s = handleOptionSelect optionId s"
| "step ClickNext s = goToNextQuestion s"
| "step ClickPrevious s = goToPreviousQuestion s"
| "step HideModal s = Inr (s\<lparr> showConfirmModal := False \<rparr>)"
| "step (ClickFinish now) s = Inr (finishQuiz_call now s)"
| "step (TimerFired now) s = Inr (tick now s)"
| "step (SubmitResolved scoreId) s = Inr (finishQuiz_resolved scoreId s)"
| "step SubmitRejected s = Inr (finishQuiz_rejected s)"
| "step BackToQuizzes s = Inr (s\<lparr> navigated := Some ''/quizzes'' \<rparr>)"

text \<open>Running a list of events; \<open>None\<close> when one cannot occur or its handler throws.\<close>

fun exec :: "event list \<Rightarrow> tq_state \<Rightarrow> tq_state option" where
  "exec [] s = Some s"
| "exec (e # es) s =
     (if enabled s e then (case step e s of Inl _ \<Rightarrow> None | Inr s' \<Rightarrow> exec es s')
      else None)"

inductive reachable :: "tq_state \<Rightarrow> bool" where
  mount: "reachable (initial qid)"
| after: "reachable s \<Longrightarrow> enabled s e \<Longrightarrow> step e s = Inr s' \<Longrightarrow> reachable s'"

datatype phase = NotStarted | InProgress | Finished

definition phase :: "tq_state \<Rightarrow> phase" where
  "phase s =
     (if quizFinished s then Finished else if quizStarted s then InProgress else NotStarted)"

text \<open>The events that call \<^verbatim>\<open>finishQuiz\<close>: the modal's button, and the interval at the last second.\<close>

definition finishes :: "tq_state \<Rightarrow> event \<Rightarrow> bool" where
  "finishes s e =
     (case e of ClickFinish now \<Rightarrow> True | TimerFired now \<Rightarrow> js_le (timeLeft s) 1 | _ \<Rightarrow> False)"

subsection \<open>Navigation between questions, without the rendering gate\<close>

datatype nav_op = Previous | Next | Select int

fun nav :: "nav_op \<Rightarrow> tq_state \<Rightarrow> tq_error + tq_state" where
  "nav Previous s = goToPreviousQuestion s"
| "nav Next s = goToNextQuestion s"
| "nav (Select optionId) s = handleOptionSelect optionId s"

fun nav_all :: "nav_op list \<Rightarrow> tq_state \<Rightarrow> tq_error + tq_state" where
  "nav_all [] s = Inr s"
| "nav_all (x # xs) s = (case nav x s of Inl e \<Rightarrow> Inl e | Inr s' \<Rightarrow> nav_all xs s')"

subsection \<open>Reading a zero-padded HH:MM:SS string\<close>

text \<open>
  The format the submission's \<^verbatim>\<open>time_taken\<close> is said to have, written from the words
  "zero-padded HH:MM:SS" and independent of \<open>formattedTime\<close>: two decimal digits each for
  hours, minutes (below 60) and seconds (below 60), separated by colons.
\<close>

definition digit_val :: "char \<Rightarrow> int option" where
  "digit_val c =
     (let n = (of_char c :: nat) in if 48 \<le> n \<and> n \<le> 57 then Some (int n - 48) else None)"

definition two_digits :: "char \<Rightarrow> char \<Rightarrow> int option" where
  "two_digits a b =
     (case digit_val a of
        None \<Rightarrow> None
      | Some x \<Rightarrow> (case digit_val b of None \<Rightarrow> None | Some y \<Rightarrow> Some (10 * x + y)))"

definition read_hms :: "string \<Rightarrow> int option" where
  "read_hms str =
     (case str of
        [h1, h0, c1, m1, m0, c2, s1, s0] \<Rightarrow>
          (if c1 = CHR '':'' \<and> c2 = CHR '':'' then
             (case two_digits h1 h0 of
                None \<Rightarrow> None
              | Some h \<Rightarrow>
                 (case two_digits m1 m0 of
                    None \<Rightarrow> None
                  | Some m \<Rightarrow>
                     (case two_digits s1 s0 of
                        None \<Rightarrow> None
                      | Some sec \<Rightarrow>
                          if m < 60 \<and> sec < 60 then Some (h * 3600 + m * 60 + sec)
                          else None)))
           else None)
      | _ \<Rightarrow> None)"

section \<open>The authentication context (part 000: AuthContext)\<close>

record user =
  user_id :: int
  username :: string
  fullName :: string
  qualification :: "string option"
  dob :: "string option"
  role :: string

text \<open>The provider's state cells and the browser's \<^verbatim>\<open>localStorage\<close>.\<close>

record auth_state =
  user :: "user option"
  token :: "string option"
  auth_loading :: bool
  auth_error :: "string option"
  localStorage :: "string \<rightharpoonup> string"

text \<open>\<^verbatim>\<open>localStorage.getItem('token') || null\<close>.\<close>

definition auth_initial :: "(string \<rightharpoonup> string) \<Rightarrow> auth_state" where
  "auth_initial ls =
     \<lparr> user = None,
       token = or_ostr (ls ''token'') None,
       auth_loading = True, auth_error = None, localStorage = ls \<rparr>"

text \<open>
  How the \<^verbatim>\<open>loginApi\<close> request settles: with the token and the user, or rejected, possibly
  carrying \<^verbatim>\<open>error.response.data.message\<close>.
\<close>

datatype login_response = LoginOk string user | LoginRejected "string option"

definition login :: "login_response \<Rightarrow> auth_state \<Rightarrow> (string + user) \<times> auth_state" where
  "login r s =
     (case r of
        LoginOk newToken userData \<Rightarrow>
          (Inr userData,
           s\<lparr> auth_error := None,
              localStorage := (localStorage s)(''token'' \<mapsto> newToken),
              token := Some newToken,
              user := Some userData \<rparr>)
      | LoginRejected m \<Rightarrow>
          (let msg = or_str m ''Login failed''
           in (Inl msg, s\<lparr> auth_error := Some msg \<rparr>)))"

definition logout :: "auth_state \<Rightarrow> auth_state" where
  "logout s =
     s\<lparr> localStorage := (localStorage s)(''token'' := None), token := None, user := None \<rparr>"

text \<open>\<^verbatim>\<open>user?.role === 'admin'\<close>.\<close>

definition isAdmin :: "auth_state \<Rightarrow> bool" where
  "isAdmin s = (case user s of None \<Rightarrow> False | Some u \<Rightarrow> role u = ''admin'')"

section \<open>The route table (App)\<close>

datatype guard = NoGuard | PrivateRoute | AdminRoute

datatype element =
    Login | Register | UserDashboard | UserProfile | QuizList | TakeQuiz | QuizResults
  | AdminDashboard | ManageUsers | ManageSubjects | ManageChapters | ManageQuizzes
  | ManageQuestions | NavigateTo string

text \<open>Each \<^verbatim>\<open>Route\<close> of \<^verbatim>\<open>App\<close>, in order: its path, the guard wrapping its element, the element.\<close>

definition routes :: "(string \<times> guard \<times> element) list" where
  "routes =
     [ (''/login'', NoGuard, Login),
       (''/register'', NoGuard, Register),
       (''/dashboard'', PrivateRoute, UserDashboard),
       (''/profile'', PrivateRoute, UserProfile),
       (''/quizzes'', PrivateRoute, QuizList),
       (''/quiz/:id'', PrivateRoute, TakeQuiz),
       (''/results/:id'', PrivateRoute, QuizResults),
       (''/admin'', AdminRoute, AdminDashboard),
       (''/admin/users'', AdminRoute, ManageUsers),
       (''/admin/subjects'', AdminRoute, ManageSubjects),
       (''/admin/chapters'', AdminRoute, ManageChapters),
       (''/admin/quizzes'', AdminRoute, ManageQuizzes),
       (''/admin/quizzes/:id/questions'', AdminRoute, ManageQuestions),
       (''/'', NoGuard, NavigateTo ''/login'') ]"

section \<open>The quiz controller (quiz.controller.ts)\<close>

subsection \<open>The tables and the object-relational mapper\<close>

text \<open>
  The models are declared outside the controller; a table is the list of its rows, and a
  row holds the columns the controller names. \<open>None\<close> in a column is \<^verbatim>\<open>NULL\<close>; \<open>None\<close> in a
  field of the request body is a field the request does not carry (\<^verbatim>\<open>undefined\<close>).
\<close>

record chapter_row =
  chapter_pk :: int
  chapter_name :: string

record quiz_row =
  quiz_pk :: int
  name :: "string option"
  remarks :: "string option"
  chapter_id :: int
  date_of_quiz :: int
  time_duration :: string

record database =
  chapters :: "chapter_row list"
  quizzes :: "quiz_row list"

text \<open>\<^verbatim>\<open>const { title, description, chapterId, timeLimit } = req.body\<close>.\<close>

record quiz_body =
  title :: "string option"
  description :: "string option"
  chapterId :: "int option"
  timeLimit :: "string option"

record response =
  status :: nat
  message :: string
  sent_quiz :: "quiz_row option"

text \<open>
  Every mapper call is awaited inside \<^verbatim>\<open>try\<close>; when it rejects, the \<^verbatim>\<open>catch\<close> block
  answers 500. Which calls reject is up to the database, so the handlers take it as an
  argument.
\<close>

datatype orm_call =
  FindChapter | FindQuizByName | CreateQuiz | FindQuiz | UpdateQuiz | DestroyQuiz

definition internal_error :: response where
  "internal_error = \<lparr> status = 500, message = ''Internal server error'', sent_quiz = None \<rparr>"

definition Chapter_findByPk :: "chapter_row list \<Rightarrow> int \<Rightarrow> chapter_row option" where
  "Chapter_findByPk cs k = find (\<lambda>c. chapter_pk c = k) cs"

definition Quiz_findByPk :: "quiz_row list \<Rightarrow> int \<Rightarrow> quiz_row option" where
  "Quiz_findByPk qs k = find (\<lambda>q. quiz_pk q = k) qs"

text \<open>\<^verbatim>\<open>Quiz.findOne({ where: { name: title, chapter_id: chapterId } })\<close>.\<close>

definition Quiz_findOne :: "quiz_row list \<Rightarrow> string option \<Rightarrow> int \<Rightarrow> quiz_row option" where
  "Quiz_findOne qs t c = find (\<lambda>q. name q = t \<and> chapter_id q = c) qs"

text \<open>The key the database gives a new row: above every key in the table.\<close>

definition next_pk :: "quiz_row list \<Rightarrow> int" where
  "next_pk qs = fold max (map quiz_pk qs) 0 + 1"

definition Quiz_update :: "quiz_row \<Rightarrow> quiz_row list \<Rightarrow> quiz_row list" where
  "Quiz_update q' qs = map (\<lambda>r. if quiz_pk r = quiz_pk q' then q' else r) qs"


subsection \<open>createQuiz\<close>

text \<open>
  \<open>now\<close> is \<^verbatim>\<open>new Date()\<close>. \<^verbatim>\<open>findByPk\<close> of \<^verbatim>\<open>undefined\<close> finds nothing. \<^verbatim>\<open>findOne\<close>
  refuses a \<^verbatim>\<open>where\<close> value that is \<^verbatim>\<open>undefined\<close>: for a request without a title the
  duplicate lookup rejects, whatever the database holds.
\<close>

definition createQuiz ::
  "(orm_call \<Rightarrow> bool) \<Rightarrow> int \<Rightarrow> quiz_body \<Rightarrow> database \<Rightarrow> response \<times> database" where
  "createQuiz rejects now b d =
     (if rejects FindChapter then (internal_error, d)
      else
        (case chapterId b of
           None \<Rightarrow> (\<lparr> status = 404, message = ''Chapter not found'', sent_quiz = None \<rparr>, d)
         | Some c \<Rightarrow>
            (case Chapter_findByPk (chapters d) c of
               None \<Rightarrow>
                 (\<lparr> status = 404, message = ''Chapter not found'', sent_quiz = None \<rparr>, d)
             | Some chapter \<Rightarrow>
                 if rejects FindQuizByName \<or> title b = None then (internal_error, d)
                 else
                   (case Quiz_findOne (quizzes d) (title b) c of
                      Some quizExists \<Rightarrow>
                        (\<lparr> status = 400, message = ''Quiz already exists in this chapter'',
                           sent_quiz = None \<rparr>, d)
                    | None \<Rightarrow>
                        if rejects CreateQuiz then (internal_error, d)
                        else
                          (let q = \<lparr> quiz_pk = next_pk (quizzes d),
                                     name = title b,
                                     remarks = description b,
                                     chapter_id = c,
                                     date_of_quiz = now,
                                     time_duration = or_str (timeLimit b) ''00:30'' \<rparr>
                           in (\<lparr> status = 201, message = ''Quiz created successfully'',
                                  sent_quiz = Some q \<rparr>,
                               d\<lparr> quizzes := quizzes d @ [q] \<rparr>))))))"

subsection \<open>updateQuiz\<close>

text \<open>\<open>qid\<close> is \<^verbatim>\<open>parseInt(req.params.id)\<close>.\<close>

definition updated_row :: "quiz_body \<Rightarrow> quiz_row \<Rightarrow> quiz_row" where
  "updated_row b q =
     q\<lparr> name := or_ostr (title b) (name q),
        remarks := or_ostr (description b) (remarks q),
        chapter_id := or_num (chapterId b) (chapter_id q),
        time_duration := or_str (timeLimit b) (time_duration q) \<rparr>"

definition quiz_update_call ::
  "(orm_call \<Rightarrow> bool) \<Rightarrow> quiz_body \<Rightarrow> quiz_row \<Rightarrow> database \<Rightarrow> response \<times> database" where
  "quiz_update_call rejects b q d =
     (if rejects UpdateQuiz then (internal_error, d)
      else
        (\<lparr> status = 200, message = ''Quiz updated successfully'',
           sent_quiz = Some (updated_row b q) \<rparr>,
         d\<lparr> quizzes := Quiz_update (updated_row b q) (quizzes d) \<rparr>))"

text \<open>
  \<^verbatim>\<open>chapterId && chapterId !== quiz.get('chapter_id')\<close>: the chapter asked for, when the
  request changes it.
\<close>

definition changed_chapter :: "quiz_body \<Rightarrow> quiz_row \<Rightarrow> int option" where
  "changed_chapter b q =
     (case chapterId b of
        None \<Rightarrow> None
      | Some c \<Rightarrow> if truthy_num c \<and> c \<noteq> chapter_id q then Some c else None)"

definition updateQuiz ::
  "(orm_call \<Rightarrow> bool) \<Rightarrow> int \<Rightarrow> quiz_body \<Rightarrow> database \<Rightarrow> response \<times> database" where
  "updateQuiz rejects qid b d =
     (if rejects FindQuiz then (internal_error, d)
      else
        (case Quiz_findByPk (quizzes d) qid of
           None \<Rightarrow> (\<lparr> status = 404, message = ''Quiz not found'', sent_quiz = None \<rparr>, d)
         | Some q \<Rightarrow>
            (case changed_chapter b q of
               Some c \<Rightarrow>
                 if rejects FindChapter then (internal_error, d)
                 else
                   (case Chapter_findByPk (chapters d) c of
                      None \<Rightarrow>
                        (\<lparr> status = 404, message = ''Chapter not found'', sent_quiz = None \<rparr>, d)
                    | Some chapter \<Rightarrow> quiz_update_call rejects b q d)
             | None \<Rightarrow> quiz_update_call rejects b q d)))"

subsection \<open>deleteQuiz\<close>


section \<open>Sample data\<close>

text \<open>A quiz of one minute with two questions, used where a property is shown at a concrete input.\<close>

definition sample_quiz :: quiz_info where
  "sample_quiz =
     \<lparr> quiz_title = ''Sets'', quiz_description = ''Basics'', quiz_timeLimit = Fin 1,
       quiz_passingScore = 50 \<rparr>"

definition sample_questions :: "question list" where
  "sample_questions =
     [ \<lparr> q_id = 1, q_text = ''First'',
         q_options = [\<lparr> choice_id = 11, choice_text = ''a'' \<rparr>,
                      \<lparr> choice_id = 12, choice_text = ''b'' \<rparr>] \<rparr>,
       \<lparr> q_id = 2, q_text = ''Second'',
         q_options = [\<lparr> choice_id = 21, choice_text = ''c'' \<rparr>,
                      \<lparr> choice_id = 22, choice_text = ''d'' \<rparr>] \<rparr> ]"

text \<open>The component after the data has arrived, and after the Start button.\<close>

definition sample_loaded :: tq_state where
  "sample_loaded = fetchQuizData (Loaded sample_quiz sample_questions) (initial 7)"

definition sample_started :: tq_state where
  "sample_started = startQuiz 1000 sample_loaded"

text \<open>A database with two chapters and one quiz, and a mapper none of whose calls rejects.\<close>

definition sample_db :: database where
  "sample_db =
     \<lparr> chapters = [\<lparr> chapter_pk = 1, chapter_name = ''Algebra'' \<rparr>,
                   \<lparr> chapter_pk = 2, chapter_name = ''Logic'' \<rparr>],
       quizzes = [\<lparr> quiz_pk = 1, name = Some ''Sets'', remarks = Some ''Basics'',
                    chapter_id = 1, date_of_quiz = 0, time_duration = ''00:10'' \<rparr>] \<rparr>"

definition no_rejection :: "orm_call \<Rightarrow> bool" where
  "no_rejection c = False"

text \<open>A mapper of which exactly one call rejects.\<close>

definition only_rejects :: "orm_call \<Rightarrow> orm_call \<Rightarrow> bool" where
  "only_rejects x c = (c = x)"

section \<open>Rounding to a double\<close>

lemma to_double_small: "\<bar>n\<bar> < 2 ^ 53 \<Longrightarrow> to_double n = Fin n"
proof -
  assume a: "\<bar>n\<bar> < 2 ^ 53"
  then have "nat \<bar>n\<bar> < 2 ^ 53"
    by (simp add: nat_less_iff)
  then have r: "round_magnitude (nat \<bar>n\<bar>) = nat \<bar>n\<bar>"
    by (simp add: round_magnitude_def)
  have "(2::nat) ^ 53 < 2 ^ 1024"
    by (rule power_strict_increasing) simp_all
  with \<open>nat \<bar>n\<bar> < 2 ^ 53\<close> have "\<not> (2::nat) ^ 1024 \<le> nat \<bar>n\<bar>"
    by linarith
  with r show ?thesis
    by (auto simp: to_double_def Let_def)
qed









section \<open>Decimal digits and the time format\<close>

lemma nat_digits_small: "n < 10 \<Longrightarrow> nat_digits n = [digit_char n]"
  by (simp add: nat_digits.simps)

lemma nat_digits_two: "10 \<le> n \<Longrightarrow> n < 100 \<Longrightarrow> nat_digits n = [digit_char (n div 10), digit_char (n mod 10)]"
  by (subst nat_digits.simps) (simp add: nat_digits_small)

lemma digit_char_0: "digit_char 0 = CHR ''0''"
  by code_simp

lemma pad2_two_digits:
  assumes "0 \<le> n" "n < 100"
  shows "pad2 n = [digit_char (nat n div 10), digit_char (nat n mod 10)]"
proof (cases "n < 10")
  case True
  with assms have "nat n < 10" by simp
  then have "nat n div 10 = 0" "nat n mod 10 = nat n" by simp_all
  then show ?thesis using assms True \<open>nat n < 10\<close>
    by (simp add: pad2_def padStart_def toString_def nat_digits_small digit_char_0)
next
  case False
  with assms have "10 \<le> nat n" "nat n < 100" by simp_all
  then show ?thesis using assms
    by (simp add: pad2_def padStart_def toString_def nat_digits_two)
qed

lemma digit_val_digit_char: "d < 10 \<Longrightarrow> digit_val (digit_char d) = Some (int d)"
  by (simp add: digit_val_def digit_char_def Let_def)


lemma two_digits_pad:
  assumes "0 \<le> n" "n < 100"
  shows "two_digits (digit_char (nat n div 10)) (digit_char (nat n mod 10)) = Some n"
proof -
  have a: "nat n div 10 < 10" using assms by simp
  have b: "nat n mod 10 < 10" by simp
  have "10 * int (nat n div 10) + int (nat n mod 10) = int (nat n)"
    by (simp add: zdiv_int zmod_int)
  then show ?thesis using assms
    by (simp add: two_digits_def digit_val_digit_char [OF a] digit_val_digit_char [OF b])
qed

lemma read_hms_chars:
  "read_hms [h1, h0, CHR '':'', m1, m0, CHR '':'', s1, s0] =
     (case two_digits h1 h0 of
                None \<Rightarrow> None
              | Some h \<Rightarrow>
                 (case two_digits m1 m0 of
                    None \<Rightarrow> None
                  | Some m \<Rightarrow>
                     (case two_digits s1 s0 of
                        None \<Rightarrow> None
                      | Some sec \<Rightarrow>
                          if m < 60 \<and> sec < 60 then Some (h * 3600 + m * 60 + sec)
                          else None)))"
  by (simp add: read_hms_def)

lemma formattedTime_range:
  assumes "0 \<le> t" "t < 360000"
  shows "formattedTime t =
     [digit_char (nat (t div 3600) div 10), digit_char (nat (t div 3600) mod 10), CHR '':'',
      digit_char (nat (t mod 3600 div 60) div 10), digit_char (nat (t mod 3600 div 60) mod 10), CHR '':'',
      digit_char (nat (t mod 60) div 10), digit_char (nat (t mod 60) mod 10)]"
proof -
  have sm: "t smod 3600 = t mod 3600" "t smod 60 = t mod 60"
    using assms by (simp_all add: smod_int_alt_def sgn_if)
  have h: "0 \<le> t div 3600" "t div 3600 < 100" using assms by simp_all
  have m: "0 \<le> t mod 3600 div 60" "t mod 3600 div 60 < 100" by simp_all
  have s: "0 \<le> t mod 60" "t mod 60 < 100"
    using pos_mod_bound [of 60 t] by simp_all
  show ?thesis
    unfolding formattedTime_def Let_def sm
      pad2_two_digits [OF h] pad2_two_digits [OF m] pad2_two_digits [OF s]
    by simp
qed

lemma read_hms_formattedTime:
  assumes "0 \<le> t" "t < 360000"
  shows "read_hms (formattedTime t) = Some t"
proof -
  have h: "0 \<le> t div 3600" "t div 3600 < 100" using assms by simp_all
  have m: "0 \<le> t mod 3600 div 60" "t mod 3600 div 60 < 100" by simp_all
  have s: "0 \<le> t mod 60" "t mod 60 < 100"
    using pos_mod_bound [of 60 t] by simp_all
  have m60: "t mod 3600 div 60 < 60" by simp
  have s60: "t mod 60 < 60" by simp
  have "t mod 3600 mod 60 = t mod 60"
    by (rule mod_mod_cancel) simp
  then have "t mod 3600 div 60 * 60 + t mod 60 = t mod 3600"
    using div_mult_mod_eq [of "t mod 3600" 60] by (simp only:)
  then have total: "t div 3600 * 3600 + t mod 3600 div 60 * 60 + t mod 60 = t"
    using div_mult_mod_eq [of t 3600] by (simp only: add.assoc)
  have "read_hms (formattedTime t) = Some (t div 3600 * 3600 + t mod 3600 div 60 * 60 + t mod 60)"
    unfolding formattedTime_range [OF assms] read_hms_chars
      two_digits_pad [OF h] two_digits_pad [OF m] two_digits_pad [OF s]
    by (simp only: option.case m60 s60 simp_thms if_True)
  then show ?thesis by (simp only: total)
qed

lemma length_formattedTime: "0 \<le> t \<Longrightarrow> t < 360000 \<Longrightarrow> length (formattedTime t) = 8"
  by (simp add: formattedTime_range)

lemma formattedTime_zero: "formattedTime 0 = ''00:00:00''"
  by code_simp

section \<open>Invariants of the reachable states of the component\<close>

lemma exec_reachable: "reachable s \<Longrightarrow> exec es s = Some s' \<Longrightarrow> reachable s'"
proof (induction es arbitrary: s)
  case Nil
  then show ?case by simp
next
  case (Cons e es)
  then show ?case
    by (auto split: if_splits sum.splits intro: reachable.after)
qed

lemma step_started:
  assumes "enabled s e" "step e s = Inr s'" "quizFinished s \<longrightarrow> quizStarted s"
  shows "quizFinished s' \<longrightarrow> quizStarted s'"
proof (cases e)
  case (Fetched r)
  with assms show ?thesis by (cases r) (auto simp: fetchQuizData_def)
next
  case (ClickOption optionId)
  with assms show ?thesis by (auto simp: handleOptionSelect_def split: sum.splits)
next
  case ClickNext
  with assms show ?thesis by (auto simp: goToNextQuestion_def split: sum.splits if_splits)
next
  case ClickPrevious
  with assms show ?thesis by (auto simp: goToPreviousQuestion_def split: sum.splits if_splits)
next
  case (TimerFired now)
  with assms show ?thesis by (auto simp: tick_def finishQuiz_call_def)
next
  case (ClickFinish now)
  with assms show ?thesis by (auto simp: finishQuiz_call_def rendered_def split: if_splits)
qed (use assms in \<open>auto simp: startQuiz_def finishQuiz_resolved_def finishQuiz_rejected_def\<close>)

lemma reachable_started: "reachable s \<Longrightarrow> quizFinished s \<longrightarrow> quizStarted s"
proof (induction rule: reachable.induct)
  case (mount qid)
  show ?case by (simp add: initial_def)
next
  case (after s e s')
  then show ?case using step_started by blast
qed



section \<open>The sample run\<close>

lemma sample_loaded_eq:
  "sample_loaded =
    \<lparr> quizId = 7, quiz = Some sample_quiz, questions = sample_questions,
      currentQuestionIndex = 0,
      answers = [\<lparr> question_id = 1, selected_option = - 1 \<rparr>,
                 \<lparr> question_id = 2, selected_option = - 1 \<rparr>],
      selectedOption = None, timeLeft = Fin 60, quizStarted = False, quizFinished = False,
      loading = False, error = None, showConfirmModal = False, startTime = None,
      submitted = [], inflight = 0, navigated = None \<rparr>"
  by (simp add: sample_loaded_def fetchQuizData_def initial_def initialAnswers_def
      sample_questions_def sample_quiz_def js_times_def to_double_small)

lemma reachable_sample_loaded: "reachable sample_loaded"
proof -
  have "enabled (initial 7) (Fetched (Loaded sample_quiz sample_questions))"
    by (simp add: initial_def)
  moreover have "step (Fetched (Loaded sample_quiz sample_questions)) (initial 7) = Inr sample_loaded"
    by (simp add: sample_loaded_def)
  ultimately show ?thesis using reachable.mount reachable.after by blast
qed

lemma enabled_start_sample: "enabled sample_loaded (ClickStart 1000)"
  by (simp add: sample_loaded_eq rendered_def truthy_ostr_def)


lemma sample_started_eq:
  "sample_started =
    \<lparr> quizId = 7, quiz = Some sample_quiz, questions = sample_questions,
      currentQuestionIndex = 0,
      answers = [\<lparr> question_id = 1, selected_option = - 1 \<rparr>,
                 \<lparr> question_id = 2, selected_option = - 1 \<rparr>],
      selectedOption = None, timeLeft = Fin 60, quizStarted = True, quizFinished = False,
      loading = False, error = None, showConfirmModal = False, startTime = Some 1000,
      submitted = [], inflight = 0, navigated = None \<rparr>"
  by (simp add: sample_started_def startQuiz_def sample_loaded_eq)

section \<open>Properties of the quiz-taking component\<close>

subsection \<open>What finishQuiz submits\<close>

lemma step_submitted:
  assumes "enabled s e" "step e s = Inr s'"
  shows "submitted s' = submitted s \<or>
         (\<exists>now. finishes s e \<and> submitted s' = submitted s @ [payload now s])"
proof (cases e)
  case (Fetched r)
  with assms show ?thesis by (cases r) (auto simp: fetchQuizData_def)
next
  case (ClickOption optionId)
  with assms show ?thesis by (auto simp: handleOptionSelect_def split: sum.splits)
next
  case ClickNext
  with assms show ?thesis
    by (auto simp: goToNextQuestion_def split: sum.splits if_splits)
next
  case ClickPrevious
  with assms show ?thesis
    by (auto simp: goToPreviousQuestion_def split: sum.splits if_splits)
next
  case (TimerFired now)
  with assms show ?thesis
    by (cases "js_le (timeLeft s) 1")
      (auto simp: tick_def finishes_def finishQuiz_call_def intro: exI [of _ now])
next
  case (ClickFinish now)
  with assms show ?thesis
    by (auto simp: finishes_def finishQuiz_call_def intro: exI [of _ now])
qed (use assms in \<open>auto simp: startQuiz_def finishQuiz_resolved_def finishQuiz_rejected_def\<close>)

text \<open>
  What holds of every call of \<^verbatim>\<open>submitQuiz\<close>: it is made by \<^verbatim>\<open>finishQuiz\<close> and carries the quiz
  id, the answers whose \<^verbatim>\<open>selected_option\<close> is not -1, in their order, and \<open>formattedTime\<close> of
  the elapsed seconds, which is a zero-padded HH:MM:SS string for an elapsed time from 0 up
  to 100 hours. When the request resolves, the component navigates to the results page of
  the returned score id.
\<close>

lemma finishQuiz_payload:
  "submitted (finishQuiz_call endTime s) = submitted s @ [payload endTime s]
   \<and> submitted (finishQuiz endTime outcome s) = submitted s @ [payload endTime s]
   \<and> sub_quiz_id (payload endTime s) = quizId s
   \<and> sub_answers (payload endTime s) = filter (\<lambda>a. selected_option a \<noteq> - 1) (answers s)
   \<and> sub_time_taken (payload endTime s) =
       formattedTime (case startTime s of None \<Rightarrow> 0 | Some st \<Rightarrow> (endTime - st) div 1000)
   \<and> (startTime s = None \<longrightarrow> sub_time_taken (payload endTime s) = ''00:00:00'')
   \<and> (\<forall>st. startTime s = Some st \<and> st \<le> endTime \<and> endTime - st < 360000000 \<longrightarrow>
          length (sub_time_taken (payload endTime s)) = 8 \<and>
          read_hms (sub_time_taken (payload endTime s)) = Some ((endTime - st) div 1000))
   \<and> navigated (finishQuiz endTime (Inr scoreId) s) = Some (''/results/'' @ toString scoreId)
   \<and> (\<forall>e s'. enabled s e \<and> step e s = Inr s' \<longrightarrow>
          submitted s' = submitted s \<or>
          (\<exists>now. finishes s e \<and> submitted s' = submitted s @ [payload now s]))"
proof -
  have call: "submitted (finishQuiz_call endTime s) = submitted s @ [payload endTime s]"
    by (simp add: finishQuiz_call_def)
  have whole: "submitted (finishQuiz endTime outcome s) = submitted s @ [payload endTime s]"
    by (cases outcome)
      (simp_all add: finishQuiz_def finishQuiz_call_def finishQuiz_resolved_def
        finishQuiz_rejected_def)
  have fields: "sub_quiz_id (payload endTime s) = quizId s"
    "sub_answers (payload endTime s) = filter (\<lambda>a. selected_option a \<noteq> - 1) (answers s)"
    "sub_time_taken (payload endTime s) =
       formattedTime (case startTime s of None \<Rightarrow> 0 | Some st \<Rightarrow> (endTime - st) div 1000)"
    by (simp_all add: payload_def validAnswers_def timeTaken_def)
  have unset: "startTime s = None \<longrightarrow> sub_time_taken (payload endTime s) = ''00:00:00''"
    by (simp add: payload_def timeTaken_def formattedTime_zero)
  have hms: "\<forall>st. startTime s = Some st \<and> st \<le> endTime \<and> endTime - st < 360000000 \<longrightarrow>
          length (sub_time_taken (payload endTime s)) = 8 \<and>
          read_hms (sub_time_taken (payload endTime s)) = Some ((endTime - st) div 1000)"
  proof (intro allI impI)
    fix st
    assume a: "startTime s = Some st \<and> st \<le> endTime \<and> endTime - st < 360000000"
    then have "0 \<le> (endTime - st) div 1000" "(endTime - st) div 1000 < 360000"
      using zdiv_mono1 [of "endTime - st" 359999999 1000]
      by (simp_all add: pos_imp_zdiv_nonneg_iff)
    then show "length (sub_time_taken (payload endTime s)) = 8 \<and>
          read_hms (sub_time_taken (payload endTime s)) = Some ((endTime - st) div 1000)"
      using a by (simp add: payload_def timeTaken_def read_hms_formattedTime length_formattedTime)
  qed
  have nav: "navigated (finishQuiz endTime (Inr scoreId) s) = Some (''/results/'' @ toString scoreId)"
    by (simp add: finishQuiz_def finishQuiz_resolved_def results_path_def)
  have steps: "\<forall>e s'. enabled s e \<and> step e s = Inr s' \<longrightarrow>
          submitted s' = submitted s \<or>
          (\<exists>now. finishes s e \<and> submitted s' = submitted s @ [payload now s])"
    using step_submitted by blast
  from call whole fields unset hms nav steps show ?thesis by blast
qed

text \<open>
  C3 holds of the quiz id, the answers and the navigation, and fails on the code for the
  time: the comment in \<^verbatim>\<open>finishQuiz\<close> says "Format time taken as HH:MM:SS", but the elapsed time
  is neither clamped nor bounded before it is formatted. When the clock was set back four
  seconds between Start and Finish, the submission carries \<^verbatim>\<open>-1:-1:-4\<close>; when Finish
  comes 100 hours after Start, it carries \<^verbatim>\<open>100:00:00\<close>. Neither is an HH:MM:SS string.
\<close>

theorem time_taken_outside_hms:
  "map_option (\<lambda>s. map sub_time_taken (submitted s))
     (exec [Fetched (Loaded sample_quiz sample_questions), ClickStart 5000, ClickNext, ClickNext,
            ClickFinish 1000] (initial 7)) = Some [''-1:-1:-4'']
   \<and> read_hms ''-1:-1:-4'' = None
   \<and> map_option (\<lambda>s. map sub_time_taken (submitted s))
     (exec [Fetched (Loaded sample_quiz sample_questions), ClickStart 1000, ClickNext, ClickNext,
            ClickFinish 360001000] (initial 7)) = Some [''100:00:00'']
   \<and> read_hms ''100:00:00'' = None"
proof -
  have early: "formattedTime (- 4) = ''-1:-1:-4''"
    by code_simp
  have long: "formattedTime 360000 = ''100:00:00''"
    by code_simp
  have d: "(- 4000 :: int) div 1000 = - 4" "(360000000 :: int) div 1000 = 360000"
    by simp_all
  have r: "read_hms ''-1:-1:-4'' = None" "read_hms ''100:00:00'' = None"
    by (simp_all add: read_hms_def two_digits_def digit_val_def)
  show ?thesis
    by (simp add: initial_def fetchQuizData_def initialAnswers_def sample_questions_def
        startQuiz_def rendered_def truthy_ostr_def goToNextQuestion_def answer_at_def
        shown_option_def finishQuiz_call_def payload_def validAnswers_def timeTaken_def
        early long d r)
qed

subsection \<open>A failed submission\<close>

text \<open>
  C9. When the \<^verbatim>\<open>submitQuiz\<close> request is rejected, \<^verbatim>\<open>finishQuiz\<close> sets the error message,
  sets \<^verbatim>\<open>quizFinished\<close>, which it had set to true before the request, back to false (so a
  started quiz is in progress again), does not navigate, and leaves the answers as they
  were.
\<close>

theorem finishQuiz_failure:
  "error (finishQuiz endTime (Inl ()) s) = Some ''Failed to submit quiz. Please try again.''
   \<and> truthy_ostr (error (finishQuiz endTime (Inl ()) s))
   \<and> quizFinished (finishQuiz_call endTime s) = True
   \<and> quizFinished (finishQuiz endTime (Inl ()) s) = False
   \<and> phase (finishQuiz endTime (Inl ()) s) = (if quizStarted s then InProgress else NotStarted)
   \<and> navigated (finishQuiz endTime (Inl ()) s) = navigated s
   \<and> answers (finishQuiz endTime (Inl ()) s) = answers s
   \<and> answers (finishQuiz_call endTime s) = answers s
   \<and> answers (finishQuiz_rejected s) = answers s
   \<and> navigated (finishQuiz_rejected s) = navigated s
   \<and> quizFinished (finishQuiz_rejected s) = False"
  by (simp add: finishQuiz_def finishQuiz_call_def finishQuiz_rejected_def submit_failed_def
      phase_def truthy_ostr_def truthy_str_def)

subsection \<open>The phases of the flow\<close>

lemma step_phase:
  assumes "enabled s e" "step e s = Inr s'" "quizFinished s \<longrightarrow> quizStarted s"
  shows "(quizStarted s' = quizStarted s \<and> quizFinished s' = quizFinished s \<and>
            (\<forall>now. e \<noteq> ClickStart now) \<and> \<not> finishes s e)
       \<or> ((\<exists>now. e = ClickStart now) \<and> \<not> quizStarted s \<and> \<not> quizFinished s \<and>
            quizStarted s' \<and> \<not> quizFinished s')
       \<or> (finishes s e \<and> quizStarted s \<and> quizStarted s' \<and> quizFinished s')
       \<or> (e = SubmitRejected \<and> quizStarted s' = quizStarted s \<and> \<not> quizFinished s')"
proof (cases e)
  case (Fetched r)
  with assms show ?thesis by (cases r) (auto simp: fetchQuizData_def finishes_def)
next
  case (ClickStart now)
  with assms show ?thesis by (auto simp: startQuiz_def rendered_def split: if_splits)
next
  case (ClickOption optionId)
  with assms show ?thesis by (auto simp: handleOptionSelect_def finishes_def split: sum.splits)
next
  case ClickNext
  with assms show ?thesis
    by (auto simp: goToNextQuestion_def finishes_def split: sum.splits if_splits)
next
  case ClickPrevious
  with assms show ?thesis
    by (auto simp: goToPreviousQuestion_def finishes_def split: sum.splits if_splits)
next
  case (TimerFired now)
  with assms show ?thesis
    by (cases "js_le (timeLeft s) 1") (auto simp: tick_def finishQuiz_call_def finishes_def)
next
  case (ClickFinish now)
  with assms show ?thesis
    by (auto simp: finishQuiz_call_def finishes_def rendered_def split: if_splits)
qed (use assms in \<open>auto simp: finishQuiz_resolved_def finishQuiz_rejected_def finishes_def\<close>)

text \<open>
  C1, as stated, fails in its last part: a transition leaves the finished state. When the
  \<^verbatim>\<open>submitQuiz\<close> request is rejected, the \<^verbatim>\<open>catch\<close> block of \<^verbatim>\<open>finishQuiz\<close> sets
  \<^verbatim>\<open>quizFinished\<close> back to false, and the quiz is in progress again.
\<close>

theorem finished_left_counterexample:
  "map_option phase
     (exec [Fetched (Loaded sample_quiz sample_questions), ClickStart 1000, ClickNext, ClickNext,
            ClickFinish 31000] (initial 7)) = Some Finished
   \<and> map_option phase
     (exec [Fetched (Loaded sample_quiz sample_questions), ClickStart 1000, ClickNext, ClickNext,
            ClickFinish 31000, SubmitRejected] (initial 7)) = Some InProgress"
  by (simp add: initial_def fetchQuizData_def initialAnswers_def sample_questions_def
      sample_quiz_def startQuiz_def rendered_def truthy_ostr_def goToNextQuestion_def
      answer_at_def shown_option_def finishQuiz_call_def finishQuiz_rejected_def phase_def)

text \<open>
  C1, amended. In every reachable state, a transition out of not-started is
  \<^verbatim>\<open>startQuiz\<close> and leads to in-progress; a transition out of in-progress is
  \<^verbatim>\<open>finishQuiz\<close> (the Finish button of the modal, or the interval at the last second) and
  leads to finished; and the only transition out of finished is the rejection of the
  submission, which leads back to in-progress. \<^verbatim>\<open>startQuiz\<close> can occur only in
  not-started, and \<^verbatim>\<open>finishQuiz\<close> only once the quiz has been started.
\<close>

theorem phase_transitions:
  assumes "reachable s" "enabled s e" "step e s = Inr s'"
  shows "(phase s = NotStarted \<longrightarrow>
            phase s' = NotStarted \<or> (phase s' = InProgress \<and> (\<exists>now. e = ClickStart now)))
       \<and> (phase s = InProgress \<longrightarrow>
            phase s' = InProgress \<or> (phase s' = Finished \<and> finishes s e))
       \<and> (phase s = Finished \<longrightarrow>
            phase s' = Finished \<or> (phase s' = InProgress \<and> e = SubmitRejected))
       \<and> ((\<exists>now. e = ClickStart now) \<longrightarrow> phase s = NotStarted \<and> phase s' = InProgress)
       \<and> (finishes s e \<longrightarrow> phase s \<noteq> NotStarted \<and> phase s' = Finished)"
proof -
  have inv: "quizFinished s \<longrightarrow> quizStarted s"
    using reachable_started [OF assms(1)] .
  from step_phase [OF assms(2,3) inv] inv show ?thesis
    by (elim disjE) (auto simp: phase_def finishes_def)
qed

theorem phase_transitions_witness:
  "reachable sample_loaded \<and> enabled sample_loaded (ClickStart 1000)
   \<and> step (ClickStart 1000) sample_loaded = Inr sample_started
   \<and> phase sample_loaded = NotStarted \<and> phase sample_started = InProgress"
proof -
  have p: "phase sample_loaded = NotStarted" "phase sample_started = InProgress"
    by (simp_all add: sample_started_eq sample_loaded_eq phase_def)
  have st: "step (ClickStart 1000) sample_loaded = Inr sample_started"
    by (simp add: sample_started_def)
  from phase_transitions [OF reachable_sample_loaded enabled_start_sample st]
  show ?thesis
    using reachable_sample_loaded enabled_start_sample st p by simp
qed

subsection \<open>The countdown\<close>




subsection \<open>The index of the current question\<close>

lemma nav_bounds:
  assumes "length (answers s) = length (questions s)"
    "0 \<le> currentQuestionIndex s" "currentQuestionIndex s < int (length (questions s))"
  shows "\<exists>s'. nav x s = Inr s' \<and> questions s' = questions s \<and>
           length (answers s') = length (questions s') \<and>
           0 \<le> currentQuestionIndex s' \<and> currentQuestionIndex s' < int (length (questions s'))"
proof (cases x)
  case Previous
  with assms show ?thesis by (auto simp: goToPreviousQuestion_def answer_at_def)
next
  case Next
  with assms show ?thesis by (auto simp: goToNextQuestion_def answer_at_def)
next
  case (Select optionId)
  with assms show ?thesis by (auto simp: handleOptionSelect_def answer_at_def)
qed

lemma nav_all_bounds:
  assumes "length (answers s) = length (questions s)"
    "0 \<le> currentQuestionIndex s" "currentQuestionIndex s < int (length (questions s))"
  shows "\<exists>s'. nav_all xs s = Inr s' \<and> questions s' = questions s \<and>
           length (answers s') = length (questions s') \<and>
           0 \<le> currentQuestionIndex s' \<and> currentQuestionIndex s' < int (length (questions s'))"
  using assms
proof (induction xs arbitrary: s)
  case Nil
  then show ?case by simp
next
  case (Cons x xs)
  from nav_bounds [OF Cons.prems, of x] obtain s1 where
    s1: "nav x s = Inr s1" "questions s1 = questions s"
      "length (answers s1) = length (questions s1)"
      "0 \<le> currentQuestionIndex s1" "currentQuestionIndex s1 < int (length (questions s1))"
    by blast
  from Cons.IH [OF s1(3,4,5)] s1(1,2) show ?case by auto
qed

lemma step_index:
  assumes "enabled s e" "step e s = Inr s'"
    "length (answers s) = length (questions s)" "0 \<le> currentQuestionIndex s"
    "currentQuestionIndex s < int (length (questions s)) \<or> currentQuestionIndex s = 0"
    "loading s \<longrightarrow> currentQuestionIndex s = 0"
  shows "length (answers s') = length (questions s') \<and> 0 \<le> currentQuestionIndex s' \<and>
    (currentQuestionIndex s' < int (length (questions s')) \<or> currentQuestionIndex s' = 0) \<and>
    (loading s' \<longrightarrow> currentQuestionIndex s' = 0)"
proof (cases e)
  case (Fetched r)
  with assms show ?thesis by (cases r) (auto simp: fetchQuizData_def initialAnswers_def)
next
  case (ClickOption optionId)
  with assms show ?thesis by (auto simp: handleOptionSelect_def split: sum.splits)
next
  case ClickNext
  with assms show ?thesis
    by (auto simp: goToNextQuestion_def rendered_def split: sum.splits if_splits)
next
  case ClickPrevious
  with assms show ?thesis
    by (auto simp: goToPreviousQuestion_def rendered_def split: sum.splits if_splits)
next
  case (TimerFired now)
  with assms show ?thesis by (cases "js_le (timeLeft s) 1") (auto simp: tick_def finishQuiz_call_def)
next
  case (ClickFinish now)
  with assms show ?thesis by (auto simp: finishQuiz_call_def)
qed (use assms in \<open>auto simp: startQuiz_def finishQuiz_resolved_def finishQuiz_rejected_def\<close>)

lemma reachable_index:
  "reachable s \<Longrightarrow>
     length (answers s) = length (questions s) \<and> 0 \<le> currentQuestionIndex s \<and>
    (currentQuestionIndex s < int (length (questions s)) \<or> currentQuestionIndex s = 0) \<and>
    (loading s \<longrightarrow> currentQuestionIndex s = 0)"
proof (induction rule: reachable.induct)
  case (mount qid)
  show ?case by (simp add: initial_def)
next
  case (after s e s')
  then show ?case using step_index [OF after.hyps(2,3)] by blast
qed

text \<open>
  C8. For a non-empty list of questions, every sequence of Previous, Next and
  answer-select operations on the loaded component runs without a \<^verbatim>\<open>TypeError\<close> and leaves
  \<^verbatim>\<open>currentQuestionIndex\<close> within \<^verbatim>\<open>[0, questions.length - 1]\<close>, so \<^verbatim>\<open>questions[currentQuestionIndex]\<close>
  is a question. \<^verbatim>\<open>goToNextQuestion\<close> increments the index only below the last question and
  otherwise opens the confirmation modal; \<^verbatim>\<open>goToPreviousQuestion\<close> decrements it only above
  0 and otherwise does nothing. The bounds also hold in every reachable state of the
  component, whatever other events occur in between.
\<close>

theorem index_in_bounds:
  assumes "qs \<noteq> []"
  shows "(\<exists>s'. nav_all ops (fetchQuizData (Loaded qz qs) (initial qid)) = Inr s' \<and>
            questions s' = qs \<and>
            0 \<le> currentQuestionIndex s' \<and> currentQuestionIndex s' \<le> int (length qs) - 1 \<and>
            currentQuestion s' = Some (qs ! nat (currentQuestionIndex s')))
       \<and> (\<forall>s s'. goToNextQuestion s = Inr s' \<longrightarrow>
            (if currentQuestionIndex s < int (length (questions s)) - 1
             then currentQuestionIndex s' = currentQuestionIndex s + 1
             else currentQuestionIndex s' = currentQuestionIndex s \<and> showConfirmModal s'))
       \<and> (\<forall>s s'. goToPreviousQuestion s = Inr s' \<longrightarrow>
            (if 0 < currentQuestionIndex s
             then currentQuestionIndex s' = currentQuestionIndex s - 1
             else s' = s))
       \<and> (\<forall>s. reachable s \<and> questions s = qs \<longrightarrow>
            0 \<le> currentQuestionIndex s \<and> currentQuestionIndex s \<le> int (length qs) - 1)"
proof -
  let ?s0 = "fetchQuizData (Loaded qz qs) (initial qid)"
  have s0: "length (answers ?s0) = length (questions ?s0)" "0 \<le> currentQuestionIndex ?s0"
    "currentQuestionIndex ?s0 < int (length (questions ?s0))" "questions ?s0 = qs"
    using assms by (simp_all add: fetchQuizData_def initial_def initialAnswers_def)
  from nav_all_bounds [OF s0(1,2,3), of ops] s0(4)
  have runs: "\<exists>s'. nav_all ops ?s0 = Inr s' \<and> questions s' = qs \<and>
            0 \<le> currentQuestionIndex s' \<and> currentQuestionIndex s' \<le> int (length qs) - 1 \<and>
            currentQuestion s' = Some (qs ! nat (currentQuestionIndex s'))"
    by (auto simp: currentQuestion_def)
  have nxt: "\<forall>s s'. goToNextQuestion s = Inr s' \<longrightarrow>
            (if currentQuestionIndex s < int (length (questions s)) - 1
             then currentQuestionIndex s' = currentQuestionIndex s + 1
             else currentQuestionIndex s' = currentQuestionIndex s \<and> showConfirmModal s')"
    by (auto simp: goToNextQuestion_def split: sum.splits if_splits)
  have prv: "\<forall>s s'. goToPreviousQuestion s = Inr s' \<longrightarrow>
            (if 0 < currentQuestionIndex s
             then currentQuestionIndex s' = currentQuestionIndex s - 1
             else s' = s)"
    by (auto simp: goToPreviousQuestion_def split: sum.splits if_splits)
  have rch: "\<forall>s. reachable s \<and> questions s = qs \<longrightarrow>
            0 \<le> currentQuestionIndex s \<and> currentQuestionIndex s \<le> int (length qs) - 1"
    using reachable_index assms by fastforce
  from runs nxt prv rch show ?thesis by blast
qed

theorem index_in_bounds_witness:
  "sample_questions \<noteq> []
   \<and> nav_all [Next, Select 21, Next, Previous, Previous, Previous, Select 12, Next]
       (fetchQuizData (Loaded sample_quiz sample_questions) (initial 7))
     = Inr (sample_loaded\<lparr> currentQuestionIndex := 1, selectedOption := Some 21,
              showConfirmModal := True,
              answers := [\<lparr> question_id = 1, selected_option = 12 \<rparr>,
                          \<lparr> question_id = 2, selected_option = 21 \<rparr>] \<rparr>)"
proof -
  have ne: "sample_questions \<noteq> []"
    by (simp add: sample_questions_def)
  have ev: "nav_all [Next, Select 21, Next, Previous, Previous, Previous, Select 12, Next]
       (fetchQuizData (Loaded sample_quiz sample_questions) (initial 7))
     = Inr (sample_loaded\<lparr> currentQuestionIndex := 1, selectedOption := Some 21,
              showConfirmModal := True,
              answers := [\<lparr> question_id = 1, selected_option = 12 \<rparr>,
                          \<lparr> question_id = 2, selected_option = 21 \<rparr>] \<rparr>)"
    by (simp add: sample_loaded_eq fetchQuizData_def initial_def initialAnswers_def
        goToNextQuestion_def goToPreviousQuestion_def handleOptionSelect_def answer_at_def
        shown_option_def sample_questions_def sample_quiz_def js_times_def to_double_small)
  from index_in_bounds [OF ne, of "[Next, Select 21, Next, Previous, Previous, Previous, Select 12, Next]" sample_quiz 7]
  show ?thesis
    using ne ev by blast
qed

section \<open>Properties of the quiz controller\<close>

subsection \<open>createQuiz\<close>

lemma fold_max_ge: "(a :: int) \<le> fold max xs a"
  by (induction xs arbitrary: a) (auto intro: order_trans [OF max.cobounded2])

lemma fold_max_mem: "(x :: int) \<in> set xs \<Longrightarrow> x \<le> fold max xs a"
proof (induction xs arbitrary: a)
  case Nil
  then show ?case by simp
next
  case (Cons y ys)
  show ?case
  proof (cases "x = y")
    case True
    then show ?thesis
      using fold_max_ge [of "max y a" ys] by simp
  next
    case False
    with Cons show ?thesis by simp
  qed
qed

lemma next_pk_fresh: "q \<in> set qs \<Longrightarrow> quiz_pk q < next_pk qs"
  using fold_max_mem [of "quiz_pk q" "map quiz_pk qs" 0] by (simp add: next_pk_def)

lemma chapter_missing:
  "(\<forall>ch \<in> set cs. chapter_pk ch \<noteq> c) \<Longrightarrow> Chapter_findByPk cs c = None"
  by (simp add: Chapter_findByPk_def find_None_iff)

lemma chapter_present:
  "\<exists>ch \<in> set cs. chapter_pk ch = c \<Longrightarrow> \<exists>ch. Chapter_findByPk cs c = Some ch"
  by (cases "Chapter_findByPk cs c") (auto simp: Chapter_findByPk_def find_None_iff)

lemma quiz_named_present:
  "\<exists>q \<in> set qs. name q = t \<and> chapter_id q = c \<Longrightarrow> \<exists>q. Quiz_findOne qs t c = Some q"
  by (cases "Quiz_findOne qs t c") (auto simp: Quiz_findOne_def find_None_iff)

lemma quiz_named_missing:
  "\<not> (\<exists>q \<in> set qs. name q = t \<and> chapter_id q = c) \<Longrightarrow> Quiz_findOne qs t c = None"
  by (simp add: Quiz_findOne_def find_None_iff)

lemma createQuiz_unchanged:
  "status (fst (createQuiz rejects now b d)) \<noteq> 201 \<Longrightarrow> snd (createQuiz rejects now b d) = d"
  by (auto simp: createQuiz_def internal_error_def Let_def split: option.splits if_splits)

text \<open>
  C4, as stated, fails where a mapper call rejects: the \<^verbatim>\<open>catch\<close> block answers 500. A
  request without a title for an existing chapter is answered 500, not 201, because the
  duplicate lookup rejects; a rejected chapter lookup is answered 500, not 404, though no
  chapter has the given id; and a rejected insert is answered 500, not 201.
\<close>

theorem createQuiz_rejected_counterexample:
  "Chapter_findByPk (chapters sample_db) 2 = Some \<lparr> chapter_pk = 2, chapter_name = ''Logic'' \<rparr>
   \<and> Quiz_findOne (quizzes sample_db) None 2 = None
   \<and> createQuiz no_rejection 99
        \<lparr> title = None, description = Some ''Paths'', chapterId = Some 2, timeLimit = None \<rparr>
        sample_db
      = (\<lparr> status = 500, message = ''Internal server error'', sent_quiz = None \<rparr>, sample_db)
   \<and> Chapter_findByPk (chapters sample_db) 9 = None
   \<and> createQuiz (only_rejects FindChapter) 99
        \<lparr> title = Some ''Graphs'', description = Some ''Paths'', chapterId = Some 9,
          timeLimit = None \<rparr> sample_db
      = (\<lparr> status = 500, message = ''Internal server error'', sent_quiz = None \<rparr>, sample_db)
   \<and> Quiz_findOne (quizzes sample_db) (Some ''Graphs'') 2 = None
   \<and> createQuiz (only_rejects CreateQuiz) 99
        \<lparr> title = Some ''Graphs'', description = Some ''Paths'', chapterId = Some 2,
          timeLimit = None \<rparr> sample_db
      = (\<lparr> status = 500, message = ''Internal server error'', sent_quiz = None \<rparr>, sample_db)"
  by (simp add: createQuiz_def no_rejection_def only_rejects_def sample_db_def
      Chapter_findByPk_def Quiz_findOne_def internal_error_def)

text \<open>
  C4, amended. \<open>createQuiz\<close> answers 500 when the chapter lookup rejects. When that lookup
  resolves, it answers 404 if no chapter has the given \<^verbatim>\<open>chapterId\<close>. When the chapter
  exists, it answers 500 if the duplicate lookup rejects, as it does for every request
  without a title; when that lookup resolves, it answers 400 if the chapter already holds a
  quiz with the same title; otherwise it answers 500 if the insert rejects, and else it
  creates the quiz, with a new key, the title, description and chapter of the request and
  \<^verbatim>\<open>time_duration\<close> equal to \<^verbatim>\<open>timeLimit\<close>, or to \<^verbatim>\<open>'00:30'\<close> when \<^verbatim>\<open>timeLimit\<close> is absent or
  empty, and answers 201. The answer is always one of 201, 400, 404 and 500; a quiz is
  created exactly when the answer is 201, and every other answer leaves the database as
  it was.
\<close>

theorem createQuiz_responses:
  "(rejects FindChapter \<longrightarrow>
      createQuiz rejects now b d =
        (\<lparr> status = 500, message = ''Internal server error'', sent_quiz = None \<rparr>, d))
   \<and> (\<not> rejects FindChapter \<and> (\<forall>ch \<in> set (chapters d). Some (chapter_pk ch) \<noteq> chapterId b) \<longrightarrow>
      createQuiz rejects now b d =
        (\<lparr> status = 404, message = ''Chapter not found'', sent_quiz = None \<rparr>, d))
   \<and> (\<forall>c. \<not> rejects FindChapter \<and> chapterId b = Some c \<and>
          (\<exists>ch \<in> set (chapters d). chapter_pk ch = c) \<longrightarrow>
        (rejects FindQuizByName \<or> title b = None \<longrightarrow>
           createQuiz rejects now b d =
             (\<lparr> status = 500, message = ''Internal server error'', sent_quiz = None \<rparr>, d))
        \<and> (\<not> rejects FindQuizByName \<and> title b \<noteq> None \<and>
             (\<exists>q \<in> set (quizzes d). name q = title b \<and> chapter_id q = c) \<longrightarrow>
           createQuiz rejects now b d =
             (\<lparr> status = 400, message = ''Quiz already exists in this chapter'',
                sent_quiz = None \<rparr>, d))
        \<and> (\<not> rejects FindQuizByName \<and> title b \<noteq> None \<and>
             \<not> (\<exists>q \<in> set (quizzes d). name q = title b \<and> chapter_id q = c) \<and>
             rejects CreateQuiz \<longrightarrow>
           createQuiz rejects now b d =
             (\<lparr> status = 500, message = ''Internal server error'', sent_quiz = None \<rparr>, d))
        \<and> (\<not> rejects FindQuizByName \<and> title b \<noteq> None \<and>
             \<not> (\<exists>q \<in> set (quizzes d). name q = title b \<and> chapter_id q = c) \<and>
             \<not> rejects CreateQuiz \<longrightarrow>
           (\<exists>q. createQuiz rejects now b d =
                  (\<lparr> status = 201, message = ''Quiz created successfully'', sent_quiz = Some q \<rparr>,
                   d\<lparr> quizzes := quizzes d @ [q] \<rparr>) \<and>
                name q = title b \<and> remarks q = description b \<and> chapter_id q = c \<and>
                date_of_quiz q = now \<and>
                time_duration q =
                  (case timeLimit b of None \<Rightarrow> ''00:30''
                   | Some t \<Rightarrow> if t = [] then ''00:30'' else t) \<and>
                (\<forall>r \<in> set (quizzes d). quiz_pk r \<noteq> quiz_pk q))))
   \<and> (status (fst (createQuiz rejects now b d)) = 201 \<longrightarrow>
        (\<exists>q. sent_quiz (fst (createQuiz rejects now b d)) = Some q \<and>
             snd (createQuiz rejects now b d) = d\<lparr> quizzes := quizzes d @ [q] \<rparr> \<and>
             name q = title b \<and> Some (chapter_id q) = chapterId b \<and>
             (\<forall>r \<in> set (quizzes d). quiz_pk r \<noteq> quiz_pk q)))
   \<and> (status (fst (createQuiz rejects now b d)) \<noteq> 201 \<longrightarrow> snd (createQuiz rejects now b d) = d)
   \<and> status (fst (createQuiz rejects now b d)) \<in> {201, 400, 404, 500}"
proof -
  let ?r = "createQuiz rejects now b d"
  have fresh: "\<forall>r \<in> set (quizzes d). quiz_pk r \<noteq> next_pk (quizzes d)"
    using next_pk_fresh by fastforce
  have c1: "rejects FindChapter \<longrightarrow>
      ?r = (\<lparr> status = 500, message = ''Internal server error'', sent_quiz = None \<rparr>, d)"
    by (simp add: createQuiz_def internal_error_def)
  have c2: "\<not> rejects FindChapter \<and> (\<forall>ch \<in> set (chapters d). Some (chapter_pk ch) \<noteq> chapterId b) \<longrightarrow>
      ?r = (\<lparr> status = 404, message = ''Chapter not found'', sent_quiz = None \<rparr>, d)"
  proof (cases "chapterId b")
    case None
    then show ?thesis by (simp add: createQuiz_def)
  next
    case (Some c)
    then show ?thesis
      using chapter_missing [of "chapters d" c] by (auto simp: createQuiz_def)
  qed
  have c3: "\<forall>c. \<not> rejects FindChapter \<and> chapterId b = Some c \<and>
          (\<exists>ch \<in> set (chapters d). chapter_pk ch = c) \<longrightarrow>
        (rejects FindQuizByName \<or> title b = None \<longrightarrow>
           ?r = (\<lparr> status = 500, message = ''Internal server error'', sent_quiz = None \<rparr>, d))
        \<and> (\<not> rejects FindQuizByName \<and> title b \<noteq> None \<and>
             (\<exists>q \<in> set (quizzes d). name q = title b \<and> chapter_id q = c) \<longrightarrow>
           ?r = (\<lparr> status = 400, message = ''Quiz already exists in this chapter'',
                sent_quiz = None \<rparr>, d))
        \<and> (\<not> rejects FindQuizByName \<and> title b \<noteq> None \<and>
             \<not> (\<exists>q \<in> set (quizzes d). name q = title b \<and> chapter_id q = c) \<and>
             rejects CreateQuiz \<longrightarrow>
           ?r = (\<lparr> status = 500, message = ''Internal server error'', sent_quiz = None \<rparr>, d))
        \<and> (\<not> rejects FindQuizByName \<and> title b \<noteq> None \<and>
             \<not> (\<exists>q \<in> set (quizzes d). name q = title b \<and> chapter_id q = c) \<and>
             \<not> rejects CreateQuiz \<longrightarrow>
           (\<exists>q. ?r =
                  (\<lparr> status = 201, message = ''Quiz created successfully'', sent_quiz = Some q \<rparr>,
                   d\<lparr> quizzes := quizzes d @ [q] \<rparr>) \<and>
                name q = title b \<and> remarks q = description b \<and> chapter_id q = c \<and>
                date_of_quiz q = now \<and>
                time_duration q =
                  (case timeLimit b of None \<Rightarrow> ''00:30''
                   | Some t \<Rightarrow> if t = [] then ''00:30'' else t) \<and>
                (\<forall>r \<in> set (quizzes d). quiz_pk r \<noteq> quiz_pk q)))"
  proof (intro allI impI)
    fix c
    assume a: "\<not> rejects FindChapter \<and> chapterId b = Some c \<and>
          (\<exists>ch \<in> set (chapters d). chapter_pk ch = c)"
    then obtain ch where ch: "Chapter_findByPk (chapters d) c = Some ch"
      using chapter_present [of "chapters d" c] by blast
    have rej: "rejects FindQuizByName \<or> title b = None \<longrightarrow>
           ?r = (\<lparr> status = 500, message = ''Internal server error'', sent_quiz = None \<rparr>, d)"
      using a ch by (auto simp: createQuiz_def internal_error_def)
    have dup: "\<not> rejects FindQuizByName \<and> title b \<noteq> None \<and>
             (\<exists>q \<in> set (quizzes d). name q = title b \<and> chapter_id q = c) \<longrightarrow>
           ?r = (\<lparr> status = 400, message = ''Quiz already exists in this chapter'',
                sent_quiz = None \<rparr>, d)"
    proof (intro impI)
      assume h: "\<not> rejects FindQuizByName \<and> title b \<noteq> None \<and>
             (\<exists>q \<in> set (quizzes d). name q = title b \<and> chapter_id q = c)"
      then obtain q0 where "Quiz_findOne (quizzes d) (title b) c = Some q0"
        using quiz_named_present [of "quizzes d" "title b" c] by blast
      with a ch h show "?r = (\<lparr> status = 400, message = ''Quiz already exists in this chapter'',
                sent_quiz = None \<rparr>, d)"
        by (simp add: createQuiz_def del: not_None_eq)
    qed
    have ins: "\<not> rejects FindQuizByName \<and> title b \<noteq> None \<and>
             \<not> (\<exists>q \<in> set (quizzes d). name q = title b \<and> chapter_id q = c) \<and>
             rejects CreateQuiz \<longrightarrow>
           ?r = (\<lparr> status = 500, message = ''Internal server error'', sent_quiz = None \<rparr>, d)"
    proof (intro impI)
      assume h: "\<not> rejects FindQuizByName \<and> title b \<noteq> None \<and>
             \<not> (\<exists>q \<in> set (quizzes d). name q = title b \<and> chapter_id q = c) \<and>
             rejects CreateQuiz"
      then have "Quiz_findOne (quizzes d) (title b) c = None"
        by (intro quiz_named_missing) simp
      with a ch h show "?r = (\<lparr> status = 500, message = ''Internal server error'', sent_quiz = None \<rparr>, d)"
        by (simp add: createQuiz_def internal_error_def del: not_None_eq)
    qed
    have new: "\<not> rejects FindQuizByName \<and> title b \<noteq> None \<and>
             \<not> (\<exists>q \<in> set (quizzes d). name q = title b \<and> chapter_id q = c) \<and>
             \<not> rejects CreateQuiz \<longrightarrow>
           (\<exists>q. ?r =
                  (\<lparr> status = 201, message = ''Quiz created successfully'', sent_quiz = Some q \<rparr>,
                   d\<lparr> quizzes := quizzes d @ [q] \<rparr>) \<and>
                name q = title b \<and> remarks q = description b \<and> chapter_id q = c \<and>
                date_of_quiz q = now \<and>
                time_duration q =
                  (case timeLimit b of None \<Rightarrow> ''00:30''
                   | Some t \<Rightarrow> if t = [] then ''00:30'' else t) \<and>
                (\<forall>r \<in> set (quizzes d). quiz_pk r \<noteq> quiz_pk q))"
    proof (intro impI)
      assume h: "\<not> rejects FindQuizByName \<and> title b \<noteq> None \<and>
             \<not> (\<exists>q \<in> set (quizzes d). name q = title b \<and> chapter_id q = c) \<and>
             \<not> rejects CreateQuiz"
      then have none: "Quiz_findOne (quizzes d) (title b) c = None"
        by (intro quiz_named_missing) simp
      show "\<exists>q. ?r =
                  (\<lparr> status = 201, message = ''Quiz created successfully'', sent_quiz = Some q \<rparr>,
                   d\<lparr> quizzes := quizzes d @ [q] \<rparr>) \<and>
                name q = title b \<and> remarks q = description b \<and> chapter_id q = c \<and>
                date_of_quiz q = now \<and>
                time_duration q =
                  (case timeLimit b of None \<Rightarrow> ''00:30''
                   | Some t \<Rightarrow> if t = [] then ''00:30'' else t) \<and>
                (\<forall>r \<in> set (quizzes d). quiz_pk r \<noteq> quiz_pk q)"
        using a ch h none fresh
        by (simp add: createQuiz_def Let_def or_str_def truthy_str_def del: not_None_eq
            split: option.splits)
    qed
    from rej dup ins new show "(rejects FindQuizByName \<or> title b = None \<longrightarrow>
           ?r = (\<lparr> status = 500, message = ''Internal server error'', sent_quiz = None \<rparr>, d))
        \<and> (\<not> rejects FindQuizByName \<and> title b \<noteq> None \<and>
             (\<exists>q \<in> set (quizzes d). name q = title b \<and> chapter_id q = c) \<longrightarrow>
           ?r = (\<lparr> status = 400, message = ''Quiz already exists in this chapter'',
                sent_quiz = None \<rparr>, d))
        \<and> (\<not> rejects FindQuizByName \<and> title b \<noteq> None \<and>
             \<not> (\<exists>q \<in> set (quizzes d). name q = title b \<and> chapter_id q = c) \<and>
             rejects CreateQuiz \<longrightarrow>
           ?r = (\<lparr> status = 500, message = ''Internal server error'', sent_quiz = None \<rparr>, d))
        \<and> (\<not> rejects FindQuizByName \<and> title b \<noteq> None \<and>
             \<not> (\<exists>q \<in> set (quizzes d). name q = title b \<and> chapter_id q = c) \<and>
             \<not> rejects CreateQuiz \<longrightarrow>
           (\<exists>q. ?r =
                  (\<lparr> status = 201, message = ''Quiz created successfully'', sent_quiz = Some q \<rparr>,
                   d\<lparr> quizzes := quizzes d @ [q] \<rparr>) \<and>
                name q = title b \<and> remarks q = description b \<and> chapter_id q = c \<and>
                date_of_quiz q = now \<and>
                time_duration q =
                  (case timeLimit b of None \<Rightarrow> ''00:30''
                   | Some t \<Rightarrow> if t = [] then ''00:30'' else t) \<and>
                (\<forall>r \<in> set (quizzes d). quiz_pk r \<noteq> quiz_pk q)))"
      by blast
  qed
  have c4: "status (fst ?r) = 201 \<longrightarrow>
        (\<exists>q. sent_quiz (fst ?r) = Some q \<and>
             snd ?r = d\<lparr> quizzes := quizzes d @ [q] \<rparr> \<and>
             name q = title b \<and> Some (chapter_id q) = chapterId b \<and>
             (\<forall>r \<in> set (quizzes d). quiz_pk r \<noteq> quiz_pk q))"
    using fresh
    by (auto simp: createQuiz_def internal_error_def Let_def split: option.splits if_splits)
  have c5: "status (fst ?r) \<in> {201, 400, 404, 500}"
    by (auto simp: createQuiz_def internal_error_def Let_def split: option.splits if_splits)
  from c1 c2 c3 c4 c5 createQuiz_unchanged [of rejects now b d] show ?thesis
    by blast
qed

theorem createQuiz_responses_witness:
  "\<not> no_rejection FindChapter \<and> \<not> no_rejection FindQuizByName \<and> \<not> no_rejection CreateQuiz
   \<and> (\<exists>ch \<in> set (chapters sample_db). chapter_pk ch = 2)
   \<and> \<not> (\<exists>q \<in> set (quizzes sample_db). name q = Some ''Graphs'' \<and> chapter_id q = 2)
   \<and> createQuiz no_rejection 99
        \<lparr> title = Some ''Graphs'', description = Some ''Paths'', chapterId = Some 2,
          timeLimit = None \<rparr> sample_db
      = (\<lparr> status = 201, message = ''Quiz created successfully'',
            sent_quiz = Some \<lparr> quiz_pk = 2, name = Some ''Graphs'', remarks = Some ''Paths'',
                               chapter_id = 2, date_of_quiz = 99, time_duration = ''00:30'' \<rparr> \<rparr>,
         sample_db\<lparr> quizzes := quizzes sample_db @
            [\<lparr> quiz_pk = 2, name = Some ''Graphs'', remarks = Some ''Paths'',
               chapter_id = 2, date_of_quiz = 99, time_duration = ''00:30'' \<rparr>] \<rparr>)
   \<and> createQuiz no_rejection 99
        \<lparr> title = Some ''Graphs'', description = Some ''Paths'', chapterId = Some 9,
          timeLimit = None \<rparr> sample_db
      = (\<lparr> status = 404, message = ''Chapter not found'', sent_quiz = None \<rparr>, sample_db)
   \<and> createQuiz no_rejection 99
        \<lparr> title = Some ''Sets'', description = None, chapterId = Some 1,
          timeLimit = Some ''00:45'' \<rparr> sample_db
      = (\<lparr> status = 400, message = ''Quiz already exists in this chapter'', sent_quiz = None \<rparr>,
         sample_db)"
proof -
  have ok: "\<not> no_rejection FindChapter" "\<not> no_rejection FindQuizByName"
    "\<not> no_rejection CreateQuiz"
    by (simp_all add: no_rejection_def)
  have ev: "createQuiz no_rejection 99
        \<lparr> title = Some ''Graphs'', description = Some ''Paths'', chapterId = Some 2,
          timeLimit = None \<rparr> sample_db
      = (\<lparr> status = 201, message = ''Quiz created successfully'',
            sent_quiz = Some \<lparr> quiz_pk = 2, name = Some ''Graphs'', remarks = Some ''Paths'',
                               chapter_id = 2, date_of_quiz = 99, time_duration = ''00:30'' \<rparr> \<rparr>,
         sample_db\<lparr> quizzes := quizzes sample_db @
            [\<lparr> quiz_pk = 2, name = Some ''Graphs'', remarks = Some ''Paths'',
               chapter_id = 2, date_of_quiz = 99, time_duration = ''00:30'' \<rparr>] \<rparr>)"
    by (simp add: createQuiz_def no_rejection_def sample_db_def Chapter_findByPk_def
        Quiz_findOne_def next_pk_def or_str_def Let_def)
  have ev404: "createQuiz no_rejection 99
        \<lparr> title = Some ''Graphs'', description = Some ''Paths'', chapterId = Some 9,
          timeLimit = None \<rparr> sample_db
      = (\<lparr> status = 404, message = ''Chapter not found'', sent_quiz = None \<rparr>, sample_db)"
    by (simp add: createQuiz_def no_rejection_def sample_db_def Chapter_findByPk_def)
  have ev400: "createQuiz no_rejection 99
        \<lparr> title = Some ''Sets'', description = None, chapterId = Some 1,
          timeLimit = Some ''00:45'' \<rparr> sample_db
      = (\<lparr> status = 400, message = ''Quiz already exists in this chapter'', sent_quiz = None \<rparr>,
         sample_db)"
    by (simp add: createQuiz_def no_rejection_def sample_db_def Chapter_findByPk_def
        Quiz_findOne_def)
  have pre: "\<exists>ch \<in> set (chapters sample_db). chapter_pk ch = 2"
    "\<not> (\<exists>q \<in> set (quizzes sample_db). name q = Some ''Graphs'' \<and> chapter_id q = 2)"
    by (simp_all add: sample_db_def)
  from createQuiz_responses [of no_rejection 99
      "\<lparr> title = Some ''Graphs'', description = Some ''Paths'', chapterId = Some 2,
         timeLimit = None \<rparr>" sample_db]
    createQuiz_responses [of no_rejection 99
      "\<lparr> title = Some ''Graphs'', description = Some ''Paths'', chapterId = Some 9,
         timeLimit = None \<rparr>" sample_db]
    createQuiz_responses [of no_rejection 99
      "\<lparr> title = Some ''Sets'', description = None, chapterId = Some 1,
         timeLimit = Some ''00:45'' \<rparr>" sample_db]
  show ?thesis
    using ok ev ev404 ev400 pre by simp
qed

subsection \<open>updateQuiz and deleteQuiz\<close>


lemma quiz_found_pk: "Quiz_findByPk qs k = Some q \<Longrightarrow> quiz_pk q = k \<and> q \<in> set qs"
  by (auto simp: Quiz_findByPk_def find_Some_iff)

lemma find_after_update:
  "Quiz_findByPk qs k = Some q \<Longrightarrow> quiz_pk q' = k \<Longrightarrow>
     Quiz_findByPk (Quiz_update q' qs) k = Some q'"
  by (induction qs) (auto simp: Quiz_findByPk_def Quiz_update_def split: if_splits)




text \<open>
  C10. For every \<open>updateQuiz\<close> request on an existing quiz, whatever the answer, the
  quiz is still stored under its id, and each of \<^verbatim>\<open>title\<close>, \<^verbatim>\<open>description\<close>, \<^verbatim>\<open>chapterId\<close> and
  \<^verbatim>\<open>timeLimit\<close> that is absent or falsy in the body (an empty string, a zero) leaves
  \<^verbatim>\<open>name\<close>, \<^verbatim>\<open>remarks\<close>, \<^verbatim>\<open>chapter_id\<close> and \<^verbatim>\<open>time_duration\<close> as they were. So the request never
  sets \<^verbatim>\<open>name\<close>, \<^verbatim>\<open>remarks\<close> or \<^verbatim>\<open>time_duration\<close> to an empty value: such a field is empty
  afterwards only if it is unchanged.
\<close>

theorem update_keeps_absent_fields:
  assumes "Quiz_findByPk (quizzes d) qid = Some q"
  shows "\<exists>q'. Quiz_findByPk (quizzes (snd (updateQuiz rejects qid b d))) qid = Some q' \<and>
     (\<not> truthy_ostr (title b) \<longrightarrow> name q' = name q) \<and>
     (\<not> truthy_ostr (description b) \<longrightarrow> remarks q' = remarks q) \<and>
     (\<not> truthy_onum (chapterId b) \<longrightarrow> chapter_id q' = chapter_id q) \<and>
     (\<not> truthy_ostr (timeLimit b) \<longrightarrow> time_duration q' = time_duration q) \<and>
     (title b = Some [] \<longrightarrow> name q' = name q) \<and>
     (description b = Some [] \<longrightarrow> remarks q' = remarks q) \<and>
     (timeLimit b = Some [] \<longrightarrow> time_duration q' = time_duration q) \<and>
     (\<not> truthy_ostr (name q') \<longrightarrow> name q' = name q) \<and>
     (\<not> truthy_ostr (remarks q') \<longrightarrow> remarks q' = remarks q) \<and>
     (time_duration q' = [] \<longrightarrow> time_duration q = [])"
proof (cases "snd (updateQuiz rejects qid b d) = d")
  case True
  with assms show ?thesis by simp
next
  case False
  then have upd: "snd (updateQuiz rejects qid b d) =
      d\<lparr> quizzes := Quiz_update (updated_row b q) (quizzes d) \<rparr>"
    using assms
    by (auto simp: updateQuiz_def quiz_update_call_def split: option.splits if_splits)
  have pk: "quiz_pk (updated_row b q) = qid"
    using quiz_found_pk [OF assms] by (simp add: updated_row_def)
  have found: "Quiz_findByPk (quizzes (snd (updateQuiz rejects qid b d))) qid = Some (updated_row b q)"
    unfolding upd using find_after_update [OF assms pk] by simp
  have fields: "(\<not> truthy_ostr (title b) \<longrightarrow> name (updated_row b q) = name q) \<and>
     (\<not> truthy_ostr (description b) \<longrightarrow> remarks (updated_row b q) = remarks q) \<and>
     (\<not> truthy_onum (chapterId b) \<longrightarrow> chapter_id (updated_row b q) = chapter_id q) \<and>
     (\<not> truthy_ostr (timeLimit b) \<longrightarrow> time_duration (updated_row b q) = time_duration q) \<and>
     (title b = Some [] \<longrightarrow> name (updated_row b q) = name q) \<and>
     (description b = Some [] \<longrightarrow> remarks (updated_row b q) = remarks q) \<and>
     (timeLimit b = Some [] \<longrightarrow> time_duration (updated_row b q) = time_duration q) \<and>
     (\<not> truthy_ostr (name (updated_row b q)) \<longrightarrow> name (updated_row b q) = name q) \<and>
     (\<not> truthy_ostr (remarks (updated_row b q)) \<longrightarrow> remarks (updated_row b q) = remarks q) \<and>
     (time_duration (updated_row b q) = [] \<longrightarrow> time_duration q = [])"
    by (auto simp: updated_row_def or_ostr_def or_str_def or_num_def truthy_ostr_def
        truthy_onum_def truthy_str_def truthy_num_def split: option.splits)
  from found fields show ?thesis by blast
qed

theorem update_keeps_absent_fields_witness:
  "Quiz_findByPk (quizzes sample_db) 1 =
     Some \<lparr> quiz_pk = 1, name = Some ''Sets'', remarks = Some ''Basics'', chapter_id = 1,
            date_of_quiz = 0, time_duration = ''00:10'' \<rparr>
   \<and> Quiz_findByPk
       (quizzes (snd (updateQuiz no_rejection 1
          \<lparr> title = Some [], description = None, chapterId = None,
            timeLimit = Some ''00:20'' \<rparr> sample_db))) 1 =
     Some \<lparr> quiz_pk = 1, name = Some ''Sets'', remarks = Some ''Basics'', chapter_id = 1,
            date_of_quiz = 0, time_duration = ''00:20'' \<rparr>"
proof -
  have f: "Quiz_findByPk (quizzes sample_db) 1 =
     Some \<lparr> quiz_pk = 1, name = Some ''Sets'', remarks = Some ''Basics'', chapter_id = 1,
            date_of_quiz = 0, time_duration = ''00:10'' \<rparr>"
    by (simp add: sample_db_def Quiz_findByPk_def)
  have ev: "Quiz_findByPk
       (quizzes (snd (updateQuiz no_rejection 1
          \<lparr> title = Some [], description = None, chapterId = None,
            timeLimit = Some ''00:20'' \<rparr> sample_db))) 1 =
     Some \<lparr> quiz_pk = 1, name = Some ''Sets'', remarks = Some ''Basics'', chapter_id = 1,
            date_of_quiz = 0, time_duration = ''00:20'' \<rparr>"
    by (simp add: updateQuiz_def quiz_update_call_def updated_row_def no_rejection_def
      sample_db_def Quiz_findByPk_def changed_chapter_def
      or_ostr_def or_str_def or_num_def truthy_ostr_def truthy_str_def Quiz_update_def)
  from update_keeps_absent_fields [OF f, of no_rejection
      "\<lparr> title = Some [], description = None, chapterId = None, timeLimit = Some ''00:20'' \<rparr>"]
  show ?thesis using f ev by simp
qed

section \<open>Properties of the authentication context and the route table\<close>

text \<open>
  C5. \<open>isAdmin\<close> holds exactly when a user is logged in and that user's role is
  \<^verbatim>\<open>'admin'\<close>; in particular it does not hold when no user is logged in. Every route
  of the table whose path starts with \<^verbatim>\<open>/admin\<close> is wrapped in the \<open>AdminRoute\<close> guard.
\<close>

theorem admin_gate:
  "(isAdmin s \<longleftrightarrow> (\<exists>u. user s = Some u \<and> role u = ''admin''))
   \<and> (user s = None \<longrightarrow> \<not> isAdmin s)
   \<and> (\<forall>(p, g, e) \<in> set routes. prefix ''/admin'' p \<longrightarrow> g = AdminRoute)"
proof -
  have "isAdmin s \<longleftrightarrow> (\<exists>u. user s = Some u \<and> role u = ''admin'')"
    by (cases "user s") (simp_all add: isAdmin_def)
  moreover have "user s = None \<longrightarrow> \<not> isAdmin s"
    by (simp add: isAdmin_def)
  moreover have "\<forall>(p, g, e) \<in> set routes. prefix ''/admin'' p \<longrightarrow> g = AdminRoute"
    by (simp add: routes_def)
  ultimately show ?thesis by blast
qed

theorem admin_gate_witness:
  "isAdmin \<lparr> user = Some \<lparr> user_id = 1, username = ''root'', fullName = ''Quiz Master'',
                            qualification = None, dob = None, role = ''admin'' \<rparr>,
             token = Some ''t'', auth_loading = False, auth_error = None,
             localStorage = [''token'' \<mapsto> ''t''] \<rparr>
   \<and> \<not> isAdmin (auth_initial Map.empty)
   \<and> (''/admin/users'', AdminRoute, ManageUsers) \<in> set routes
   \<and> prefix ''/admin'' ''/admin/users''"
  using admin_gate [of "auth_initial Map.empty"]
  by (simp add: isAdmin_def auth_initial_def routes_def)

text \<open>
  C6. A successful login stores the token the server returned under the
  \<^verbatim>\<open>localStorage\<close> key \<^verbatim>\<open>'token'\<close>, and sets the token and the user. Logout removes that
  key and nothing else from \<^verbatim>\<open>localStorage\<close>, sets token and user to \<^verbatim>\<open>null\<close>, and
  \<open>isAdmin\<close> is false afterwards.
\<close>

theorem login_logout:
  "login (LoginOk newToken userData) s =
     (Inr userData,
      s\<lparr> auth_error := None, localStorage := (localStorage s)(''token'' \<mapsto> newToken),
         token := Some newToken, user := Some userData \<rparr>)
   \<and> localStorage (snd (login (LoginOk newToken userData) s)) ''token'' = Some newToken
   \<and> token (snd (login (LoginOk newToken userData) s)) = Some newToken
   \<and> user (snd (login (LoginOk newToken userData) s)) = Some userData
   \<and> localStorage (logout s) = (localStorage s)(''token'' := None)
   \<and> localStorage (logout s) ''token'' = None
   \<and> token (logout s) = None
   \<and> user (logout s) = None
   \<and> isAdmin (logout s) = False"
  by (simp add: login_def logout_def isAdmin_def)

end
